theory Spec2Isabelle
  imports Complex_Main
begin

section \<open>Python strings\<close>

text \<open>
  The scraper of \<^verbatim>\<open>src/app.py\<close> (class \<^verbatim>\<open>ProductScraper\<close>) works on Python strings,
  on the values \<^verbatim>\<open>json.loads\<close> returns and on the document tree BeautifulSoup builds.
  Text is modelled over the ASCII alphabet: a \<^typ>\<open>char\<close> stands for a code point below
  128, and the character tests below treat every other code as a symbol without case that
  is neither digit, space nor word character. The non-ASCII alternatives of the source's
  patterns (the multiplication sign, the double prime, the pound, euro, yen and rupee
  signs) can match no ASCII text and are left out of the patterns below.
\<close>

definition digits :: string where
  "digits = ''0123456789''"

definition uppers :: string where
  "uppers = ''ABCDEFGHIJKLMNOPQRSTUVWXYZ''"

definition lowers :: string where
  "lowers = ''abcdefghijklmnopqrstuvwxyz''"

text \<open>The ASCII characters for which \<^verbatim>\<open>str.isspace\<close> holds (and that \<^verbatim>\<open>\s\<close> matches).\<close>

definition whitespace :: string where
  "whitespace = [CHR 0x20, CHR 0x09, CHR 0x0A, CHR 0x0B, CHR 0x0C, CHR 0x0D,
                 CHR 0x1C, CHR 0x1D, CHR 0x1E, CHR 0x1F]"

definition is_digit :: "char \<Rightarrow> bool" where
  "is_digit c = (c \<in> set digits)"

definition is_upper :: "char \<Rightarrow> bool" where
  "is_upper c = (c \<in> set uppers)"

definition is_lower :: "char \<Rightarrow> bool" where
  "is_lower c = (c \<in> set lowers)"

definition is_space :: "char \<Rightarrow> bool" where
  "is_space c = (c \<in> set whitespace)"

definition is_word :: "char \<Rightarrow> bool" where
  "is_word c = (is_digit c \<or> is_upper c \<or> is_lower c \<or> c = CHR ''_'')"

definition lower_char :: "char \<Rightarrow> char" where
  "lower_char c = (case map_of (zip uppers lowers) c of Some l \<Rightarrow> l | None \<Rightarrow> c)"

definition upper_char :: "char \<Rightarrow> char" where
  "upper_char c = (case map_of (zip lowers uppers) c of Some u \<Rightarrow> u | None \<Rightarrow> c)"

text \<open>\<^verbatim>\<open>s.lower()\<close>, \<^verbatim>\<open>s.strip()\<close>, \<^verbatim>\<open>s.rstrip('.')\<close>, \<^verbatim>\<open>s.isdigit()\<close>,
  \<^verbatim>\<open>s.startswith(p)\<close>, \<^verbatim>\<open>s.endswith(p)\<close>, \<^verbatim>\<open>s.replace(c, '')\<close>.\<close>

definition py_lower :: "string \<Rightarrow> string" where
  "py_lower s = map lower_char s"

definition py_strip :: "string \<Rightarrow> string" where
  "py_strip s = rev (dropWhile is_space (rev (dropWhile is_space s)))"

definition rstrip_char :: "char \<Rightarrow> string \<Rightarrow> string" where
  "rstrip_char d s = rev (dropWhile (\<lambda>c. c = d) (rev s))"

definition py_isdigit :: "string \<Rightarrow> bool" where
  "py_isdigit s = (s \<noteq> [] \<and> list_all is_digit s)"

definition startswith :: "string \<Rightarrow> string \<Rightarrow> bool" where
  "startswith s p = (take (length p) s = p)"

definition endswith :: "string \<Rightarrow> string \<Rightarrow> bool" where
  "endswith s p = (take (length p) (rev s) = rev p)"

definition remove_char :: "char \<Rightarrow> string \<Rightarrow> string" where
  "remove_char d s = filter (\<lambda>c. c \<noteq> d) s"

text \<open>\<^verbatim>\<open>sub in s\<close> on two strings.\<close>

fun str_contains :: "string \<Rightarrow> string \<Rightarrow> bool" where
  "str_contains sub [] = (sub = [])"
| "str_contains sub (c # cs) = (take (length sub) (c # cs) = sub \<or> str_contains sub cs)"

text \<open>\<^verbatim>\<open>s.split()\<close>: the maximal runs of non-space characters, in order.\<close>

fun split_ws_acc :: "string \<Rightarrow> string \<Rightarrow> string list" where
  "split_ws_acc cur [] = (if cur = [] then [] else [cur])"
| "split_ws_acc cur (c # cs) =
     (if is_space c then (if cur = [] then split_ws_acc [] cs else cur # split_ws_acc [] cs)
      else split_ws_acc (cur @ [c]) cs)"

definition py_split :: "string \<Rightarrow> string list" where
  "py_split s = split_ws_acc [] s"

text \<open>\<^verbatim>\<open>s.split(d)\<close> for a one-character separator: always at least one part.\<close>

fun split_on_acc :: "char \<Rightarrow> string \<Rightarrow> string \<Rightarrow> string list" where
  "split_on_acc d cur [] = [cur]"
| "split_on_acc d cur (c # cs) =
     (if c = d then cur # split_on_acc d [] cs else split_on_acc d (cur @ [c]) cs)"

definition split_on :: "char \<Rightarrow> string \<Rightarrow> string list" where
  "split_on d s = split_on_acc d [] s"

text \<open>\<^verbatim>\<open>sep.join(parts)\<close>.\<close>

fun join :: "string \<Rightarrow> string list \<Rightarrow> string" where
  "join sep [] = []"
| "join sep [p] = p"
| "join sep (p # q # ps) = p @ sep @ join sep (q # ps)"

section \<open>Python values\<close>

text \<open>
  A value of Python is a \<open>pyval\<close>. A float is carried as a decimal text that identifies
  it: the text \<^verbatim>\<open>str()\<close> gives for a float that \<^verbatim>\<open>json.loads\<close> read, and the argument
  \<open>t\<close> for a float built by \<^verbatim>\<open>float(t)\<close> (to which the scraper never applies \<^verbatim>\<open>str()\<close>).
  Floating-point arithmetic itself is not modelled. Values are compared structurally;
  Python's identification of \<^verbatim>\<open>True\<close> with \<^verbatim>\<open>1\<close> and of a float with the integer of the
  same value is not modelled.
\<close>

datatype pyval =
    PStr string
  | PInt int
  | PFloat string
  | PBool bool
  | PNone
  | PList "pyval list"
  | PDict "(string \<times> pyval) list"

text \<open>\<^verbatim>\<open>str(n)\<close> for an integer.\<close>

fun str_of_nat :: "nat \<Rightarrow> string" where
  "str_of_nat n = (if n < 10 then [digits ! n] else str_of_nat (n div 10) @ [digits ! (n mod 10)])"

definition str_of_int :: "int \<Rightarrow> string" where
  "str_of_int i = (if i < 0 then CHR ''-'' # str_of_nat (nat (- i)) else str_of_nat (nat i))"

text \<open>\<^verbatim>\<open>repr(s)\<close> for an ASCII string: single quotes, unless the string has a single quote
  and no double quote; backslash, the quote in use, tab, newline and carriage return are
  escaped, and the other control characters are written \<^verbatim>\<open>\xNN\<close>.\<close>

definition hex_digits :: string where
  "hex_digits = ''0123456789abcdef''"

definition repr_char :: "char \<Rightarrow> char \<Rightarrow> string" where
  "repr_char q c =
     (if c = CHR 0x5C then [CHR 0x5C, CHR 0x5C]
      else if c = q then [CHR 0x5C, q]
      else if c = CHR 0x09 then [CHR 0x5C, CHR ''t'']
      else if c = CHR 0x0A then [CHR 0x5C, CHR ''n'']
      else if c = CHR 0x0D then [CHR 0x5C, CHR ''r'']
      else if (of_char c :: nat) < 32 \<or> (of_char c :: nat) = 127
        then [CHR 0x5C, CHR ''x'', hex_digits ! ((of_char c :: nat) div 16),
              hex_digits ! ((of_char c :: nat) mod 16)]
      else [c])"

definition repr_str :: "string \<Rightarrow> string" where
  "repr_str s =
     (let q = (if CHR 0x27 \<in> set s \<and> CHR 0x22 \<notin> set s then CHR 0x22 else CHR 0x27)
      in [q] @ concat (map (repr_char q) s) @ [q])"

fun py_repr :: "pyval \<Rightarrow> string" where
  "py_repr (PStr s) = repr_str s"
| "py_repr (PInt i) = str_of_int i"
| "py_repr (PFloat r) = r"
| "py_repr (PBool b) = (if b then ''True'' else ''False'')"
| "py_repr PNone = ''None''"
| "py_repr (PList xs) = ''['' @ join '', '' (map py_repr xs) @ '']''"
| "py_repr (PDict kvs) =
     ''{'' @ join '', '' (map (\<lambda>kv. repr_str (fst kv) @ '': '' @ py_repr (snd kv)) kvs) @ ''}''"

text \<open>\<^verbatim>\<open>str(v)\<close>.\<close>

fun py_str :: "pyval \<Rightarrow> string" where
  "py_str (PStr s) = s"
| "py_str v = py_repr v"

text \<open>\<^verbatim>\<open>k in v\<close> for a string \<open>k\<close>: key membership on a dict, element membership on a
  list, substring on a string, and \<^verbatim>\<open>TypeError\<close> (here \<open>None\<close>) on anything else.\<close>

fun py_in :: "string \<Rightarrow> pyval \<Rightarrow> bool option" where
  "py_in k (PDict kvs) = Some (map_of kvs k \<noteq> None)"
| "py_in k (PList xs) = Some (PStr k \<in> set xs)"
| "py_in k (PStr s) = Some (str_contains k s)"
| "py_in k v = None"

text \<open>\<^verbatim>\<open>v[k]\<close> for a string \<open>k\<close>: the value on a dict that has the key; \<open>None\<close> stands for
  the \<^verbatim>\<open>KeyError\<close> or \<^verbatim>\<open>TypeError\<close> raised otherwise.\<close>

fun py_getitem :: "pyval \<Rightarrow> string \<Rightarrow> pyval option" where
  "py_getitem (PDict kvs) k = map_of kvs k"
| "py_getitem v k = None"

text \<open>A loop that returns at the first iteration producing a value.\<close>

fun first_some :: "('a \<Rightarrow> 'b option) \<Rightarrow> 'a list \<Rightarrow> 'b option" where
  "first_some f [] = None"
| "first_some f (x # xs) = (case f x of Some y \<Rightarrow> Some y | None \<Rightarrow> first_some f xs)"

section \<open>Regular expressions\<close>

text \<open>
  The patterns of the source are written as terms of \<open>rx\<close>, and \<^verbatim>\<open>re.search\<close> and
  \<^verbatim>\<open>re.sub\<close> as a backtracking matcher over them. A character class is a list of items;
  \<open>Sym neg its\<close> matches one character that is in (or, when \<open>neg\<close>, not in) the class.
  With \<^verbatim>\<open>re.IGNORECASE\<close> (the flag \<open>ic\<close>) a character is in a class when one of its two cases is.
\<close>

datatype citem = CChr char | CDigit | CSpace | CWord | CUpper

fun citem_match :: "citem \<Rightarrow> char \<Rightarrow> bool" where
  "citem_match (CChr c) x = (x = c)"
| "citem_match CDigit x = is_digit x"
| "citem_match CSpace x = is_space x"
| "citem_match CWord x = is_word x"
| "citem_match CUpper x = is_upper x"

definition sym_match :: "bool \<Rightarrow> bool \<Rightarrow> citem list \<Rightarrow> char \<Rightarrow> bool" where
  "sym_match ic neg its x =
     (let hit = list_ex (\<lambda>it. citem_match it x \<or>
                   (ic \<and> (citem_match it (lower_char x) \<or> citem_match it (upper_char x)))) its
      in if neg then \<not> hit else hit)"

datatype rx =
    Sym bool "citem list"
  | Eps
  | Bol
  | Eol
  | WordB
  | Seq rx rx
  | Alt rx rx
  | Star rx
  | Opt rx
  | Grp nat rx

text \<open>
  A matcher state is the character before the current position (\<open>None\<close> at the start of
  the text), the text still to be read, and the groups captured so far. \<open>ms ic r st\<close> lists
  the states in which a match of \<open>r\<close> from \<open>st\<close> can end, in the order in which Python's
  backtracking matcher tries them, so that the head of the list is the match it reports:
  an alternation tries its left branch first, and the greedy \<open>Star\<close> and \<open>Opt\<close> try one more
  repetition before they try to stop. Every starred pattern of the source reads at least
  one character per repetition; \<open>iter\<close> drops a repetition that reads none, and so needs at
  most as many rounds as characters are left.
\<close>

type_synonym caps = "nat \<Rightarrow> string option"

type_synonym mstate = "char option \<times> string \<times> caps"

fun iter :: "nat \<Rightarrow> (mstate \<Rightarrow> mstate list) \<Rightarrow> mstate \<Rightarrow> mstate list" where
  "iter 0 f st = [st]"
| "iter (Suc n) f st =
     concat (map (\<lambda>st'. if length (fst (snd st')) < length (fst (snd st))
                         then iter n f st' else []) (f st)) @ [st]"

text \<open>\<^verbatim>\<open>\b\<close>: exactly one of the characters on the two sides is a word character.\<close>

definition word_boundary :: "char option \<Rightarrow> string \<Rightarrow> bool" where
  "word_boundary prev rest =
     ((case prev of None \<Rightarrow> False | Some c \<Rightarrow> is_word c) \<noteq>
      (case rest of [] \<Rightarrow> False | c # _ \<Rightarrow> is_word c))"

primrec ms :: "bool \<Rightarrow> rx \<Rightarrow> mstate \<Rightarrow> mstate list" where
  "ms ic (Sym neg its) = (\<lambda>(prev, rest, c).
     case rest of [] \<Rightarrow> []
     | x # xs \<Rightarrow> if sym_match ic neg its x then [(Some x, xs, c)] else [])"
| "ms ic Eps = (\<lambda>st. [st])"
| "ms ic Bol = (\<lambda>(prev, rest, c). if prev = None then [(prev, rest, c)] else [])"
| "ms ic Eol = (\<lambda>(prev, rest, c).
     if rest = [] \<or> rest = [CHR 0x0A] then [(prev, rest, c)] else [])"
| "ms ic WordB = (\<lambda>(prev, rest, c). if word_boundary prev rest then [(prev, rest, c)] else [])"
| "ms ic (Seq a b) = (\<lambda>st. concat (map (ms ic b) (ms ic a st)))"
| "ms ic (Alt a b) = (\<lambda>st. ms ic a st @ ms ic b st)"
| "ms ic (Star a) = (\<lambda>st. iter (length (fst (snd st))) (ms ic a) st)"
| "ms ic (Opt a) = (\<lambda>st. ms ic a st @ [st])"
| "ms ic (Grp i a) = (\<lambda>(prev, rest, c).
     map (\<lambda>(prev', rest', c'). (prev', rest', c'(i \<mapsto> take (length rest - length rest') rest)))
         (ms ic a (prev, rest, c)))"

text \<open>A match object: \<^verbatim>\<open>group(0)\<close>, the text after the match, and the numbered groups
  (\<open>None\<close> for a group that took no part in the match).\<close>

record rmatch =
  group0 :: string
  after :: string
  groups :: caps

definition match_at :: "bool \<Rightarrow> rx \<Rightarrow> char option \<Rightarrow> string \<Rightarrow> rmatch option" where
  "match_at ic r prev rest =
     (case ms ic r (prev, rest, Map.empty) of
        [] \<Rightarrow> None
      | (prev', rest', c) # _ \<Rightarrow>
          Some \<lparr> group0 = take (length rest - length rest') rest, after = rest', groups = c \<rparr>)"

text \<open>\<^verbatim>\<open>re.search\<close>: the match at the leftmost position that has one.\<close>

fun search_from :: "bool \<Rightarrow> rx \<Rightarrow> char option \<Rightarrow> string \<Rightarrow> rmatch option" where
  "search_from ic r prev [] = match_at ic r prev []"
| "search_from ic r prev (x # xs) =
     (case match_at ic r prev (x # xs) of
        Some m \<Rightarrow> Some m
      | None \<Rightarrow> search_from ic r (Some x) xs)"

definition re_search :: "bool \<Rightarrow> rx \<Rightarrow> string \<Rightarrow> rmatch option" where
  "re_search ic r s = search_from ic r None s"

text \<open>\<^verbatim>\<open>re.sub(pattern, '', s)\<close>: every match is cut out, scanning from the left and going
  on after each match. (A match of the empty text replaces nothing by nothing.)\<close>

function sub_from :: "bool \<Rightarrow> rx \<Rightarrow> char option \<Rightarrow> string \<Rightarrow> string" where
  "sub_from ic r prev [] = []"
| "sub_from ic r prev (x # xs) =
     (case match_at ic r prev (x # xs) of
        None \<Rightarrow> x # sub_from ic r (Some x) xs
      | Some m \<Rightarrow>
          if length (after m) < length (x # xs)
          then sub_from ic r (Some (last (group0 m))) (after m)
          else x # sub_from ic r (Some x) xs)"
  by pat_completeness auto
termination
  by (relation "measure (\<lambda>(ic, r, prev, s). length s)") auto

definition re_sub :: "bool \<Rightarrow> rx \<Rightarrow> string \<Rightarrow> string" where
  "re_sub ic r s = sub_from ic r None s"

text \<open>\<^verbatim>\<open>f"{m.group(i)}"\<close>: the text of the group, or \<^verbatim>\<open>None\<close> printed.\<close>

definition group_str :: "rmatch \<Rightarrow> nat \<Rightarrow> string" where
  "group_str m i = (case groups m i of Some w \<Rightarrow> w | None \<Rightarrow> ''None'')"

subsection \<open>Pattern notation\<close>

definition Lit :: "char \<Rightarrow> rx" where
  "Lit c = Sym False [CChr c]"

definition Digit :: rx where
  "Digit = Sym False [CDigit]"

definition Space :: rx where
  "Space = Sym False [CSpace]"

text \<open>\<^verbatim>\<open>.\<close> matches any character but a newline.\<close>

definition Dot :: rx where
  "Dot = Sym True [CChr (CHR 0x0A)]"

definition Plus :: "rx \<Rightarrow> rx" where
  "Plus a = Seq a (Star a)"

fun seqs :: "rx list \<Rightarrow> rx" where
  "seqs [] = Eps"
| "seqs [a] = a"
| "seqs (a # b # as) = Seq a (seqs (b # as))"

fun alts :: "rx list \<Rightarrow> rx" where
  "alts [] = Eps"
| "alts [a] = a"
| "alts (a # b # as) = Alt a (alts (b # as))"

definition lits :: "string \<Rightarrow> rx" where
  "lits s = seqs (map Lit s)"

text \<open>\<^verbatim>\<open>a{m}\<close> and \<^verbatim>\<open>a{m,n}\<close>.\<close>

fun times :: "nat \<Rightarrow> rx \<Rightarrow> rx" where
  "times 0 a = Eps"
| "times (Suc n) a = Seq a (times n a)"

fun upto_times :: "nat \<Rightarrow> rx \<Rightarrow> rx" where
  "upto_times 0 a = Eps"
| "upto_times (Suc n) a = Opt (Seq a (upto_times n a))"

definition Rep :: "nat \<Rightarrow> nat \<Rightarrow> rx \<Rightarrow> rx" where
  "Rep m n a = Seq (times m a) (upto_times (n - m) a)"

subsection \<open>The patterns of the source\<close>

text \<open>\<^verbatim>\<open>(\d+\.?\d*)\<close> as group \<open>i\<close>.\<close>

definition num_grp :: "nat \<Rightarrow> rx" where
  "num_grp i = Grp i (seqs [Plus Digit, Opt (Lit (CHR ''.'')), Star Digit])"

text \<open>\<^verbatim>\<open>[:\s]\<close>.\<close>

definition colon_space :: rx where
  "colon_space = Sym False [CChr (CHR '':''), CSpace]"

text \<open>\<^verbatim>\<open>extract_name\<close>: \<^verbatim>\<open>\s*-\s*Amazon\.ca.*$\<close> and \<^verbatim>\<open>\s*\|\s*.*$\<close>.\<close>

definition rx_amazon_suffix :: rx where
  "rx_amazon_suffix =
     seqs [Star Space, Lit (CHR ''-''), Star Space, lits ''Amazon.ca'', Star Dot, Eol]"

definition rx_pipe_suffix :: rx where
  "rx_pipe_suffix = seqs [Star Space, Lit (CHR ''|''), Star Space, Star Dot, Eol]"

text \<open>\<^verbatim>\<open>extract_brand\<close>: \<^verbatim>\<open>^(Brand:|by|Visit the|Store)\<close> and \<^verbatim>\<open>Brand[:\s]+([^\n\r]+)\<close>.\<close>

definition rx_brand_prefix :: rx where
  "rx_brand_prefix =
     Seq Bol (Grp 1 (alts [lits ''Brand:'', lits ''by'', lits ''Visit the'', lits ''Store'']))"

definition rx_brand_spec :: rx where
  "rx_brand_spec =
     seqs [lits ''Brand'', Plus colon_space,
           Grp 1 (Plus (Sym True [CChr (CHR 0x0A), CChr (CHR 0x0D)]))]"

text \<open>\<^verbatim>\<open>extract_gtin\<close>: \<^verbatim>\<open>UPC[:\s]+(\d{12})\<close>, \<^verbatim>\<open>EAN[:\s]+(\d{13})\<close>,
  \<^verbatim>\<open>GTIN[:\s]+(\d{8,14})\<close>, \<^verbatim>\<open>ISBN-13[:\s]+(\d{13})\<close>, \<^verbatim>\<open>ISBN-10[:\s]+(\d{10})\<close>,
  \<^verbatim>\<open>ASIN[:\s]+([A-Z0-9]{10})\<close>, \<^verbatim>\<open>\b(\d{12,13})\b\<close>; and \<^verbatim>\<open>[^\w\d]\<close>.\<close>

definition gtin_patterns :: "rx list" where
  "gtin_patterns =
     [seqs [lits ''UPC'', Plus colon_space, Grp 1 (times 12 Digit)],
      seqs [lits ''EAN'', Plus colon_space, Grp 1 (times 13 Digit)],
      seqs [lits ''GTIN'', Plus colon_space, Grp 1 (Rep 8 14 Digit)],
      seqs [lits ''ISBN-13'', Plus colon_space, Grp 1 (times 13 Digit)],
      seqs [lits ''ISBN-10'', Plus colon_space, Grp 1 (times 10 Digit)],
      seqs [lits ''ASIN'', Plus colon_space, Grp 1 (times 10 (Sym False [CUpper, CDigit]))],
      seqs [WordB, Grp 1 (Rep 12 13 Digit), WordB]]"

definition rx_non_word :: rx where
  "rx_non_word = Sym True [CWord, CDigit]"

text \<open>\<^verbatim>\<open>extract_price\<close>: \<^verbatim>\<open>^[A-Z]{3}\s*\<close>, the currency symbols followed by \<^verbatim>\<open>\s*\<close>
  (of which the dollar sign is the ASCII one), \<^verbatim>\<open>(\d{1,3}(?:,\d{3})*(?:\.\d{2})?)\<close> and
  \<^verbatim>\<open>(\d{1,3}(?:,\d{3})*\.?\d*)\<close>.\<close>

definition rx_currency_code :: rx where
  "rx_currency_code = seqs [Bol, times 3 (Sym False [CUpper]), Star Space]"

definition rx_currency_symbol :: rx where
  "rx_currency_symbol = Seq (Sym False [CChr (CHR ''$'')]) (Star Space)"

definition rx_price :: rx where
  "rx_price =
     Grp 1 (seqs [Rep 1 3 Digit, Star (Seq (Lit (CHR '','')) (times 3 Digit)),
                  Opt (Seq (Lit (CHR ''.'')) (times 2 Digit))])"

definition rx_parent_price :: rx where
  "rx_parent_price =
     Grp 1 (seqs [Rep 1 3 Digit, Star (Seq (Lit (CHR '','')) (times 3 Digit)),
                  Opt (Lit (CHR ''.'')), Star Digit])"

text \<open>\<^verbatim>\<open>extract_weight\<close>: the unit group \<^verbatim>\<open>(kg|g|lbs?|pounds?|ounces?|oz|fl\s*oz)\<close>, the six
  patterns tried on the page's regions, and the seven tried on the product name.\<close>

definition weight_unit :: rx where
  "weight_unit =
     Grp 2 (alts [lits ''kg'', lits ''g'', Seq (lits ''lb'') (Opt (Lit (CHR ''s''))),
                  Seq (lits ''pound'') (Opt (Lit (CHR ''s''))),
                  Seq (lits ''ounce'') (Opt (Lit (CHR ''s''))), lits ''oz'',
                  seqs [lits ''fl'', Star Space, lits ''oz'']])"

definition fluid_ounces :: rx where
  "fluid_ounces = seqs [lits ''fluid'', Star Space, lits ''ounce'', Opt (Lit (CHR ''s''))]"

definition weight_patterns :: "rx list" where
  "weight_patterns =
     [seqs [lits ''weight'', Star colon_space, num_grp 1, Star Space, weight_unit],
      seqs [num_grp 1, Star Space, weight_unit, Star Space, lits ''weight''],
      seqs [lits ''item'', Star Space, lits ''weight'', Star colon_space, num_grp 1,
            Star Space, weight_unit],
      seqs [lits ''shipping'', Star Space, lits ''weight'', Star colon_space, num_grp 1,
            Star Space, weight_unit],
      seqs [lits ''net'', Star Space, lits ''wt'', Opt (Lit (CHR ''.'')), Star Space, num_grp 1,
            Star Space, weight_unit],
      seqs [num_grp 1, Star Space,
            Grp 2 (Alt (seqs [lits ''fl'', Star Space, lits ''oz'']) fluid_ounces)]]"

text \<open>Lines 1886 to 1892: \<^verbatim>\<open>(\d+\.?\d*)\s*(fl\.?\s*oz|fluid\s*ounces?)\<close>,
  \<^verbatim>\<open>(\d+\.?\d*)\s*(oz|ounces?)\b\<close>, \<^verbatim>\<open>(\d+\.?\d*)\s*(ml|mL|milliliters?)\<close>,
  \<^verbatim>\<open>(\d+\.?\d*)\s*(L|liters?)\b\<close>, \<^verbatim>\<open>(\d+\.?\d*)\s*(g|grams?)\b\<close>,
  \<^verbatim>\<open>(\d+\.?\d*)\s*(kg|kilograms?)\b\<close>, \<^verbatim>\<open>(\d+\.?\d*)\s*(lbs?|pounds?)\b\<close>.\<close>

definition title_patterns :: "rx list" where
  "title_patterns =
     [seqs [num_grp 1, Star Space,
            Grp 2 (Alt (seqs [lits ''fl'', Opt (Lit (CHR ''.'')), Star Space, lits ''oz''])
                       fluid_ounces)],
      seqs [num_grp 1, Star Space,
            Grp 2 (Alt (lits ''oz'') (Seq (lits ''ounce'') (Opt (Lit (CHR ''s''))))), WordB],
      seqs [num_grp 1, Star Space,
            Grp 2 (alts [lits ''ml'', lits ''mL'',
                         Seq (lits ''milliliter'') (Opt (Lit (CHR ''s'')))])],
      seqs [num_grp 1, Star Space,
            Grp 2 (Alt (lits ''L'') (Seq (lits ''liter'') (Opt (Lit (CHR ''s''))))), WordB],
      seqs [num_grp 1, Star Space,
            Grp 2 (Alt (lits ''g'') (Seq (lits ''gram'') (Opt (Lit (CHR ''s''))))), WordB],
      seqs [num_grp 1, Star Space,
            Grp 2 (Alt (lits ''kg'') (Seq (lits ''kilogram'') (Opt (Lit (CHR ''s''))))), WordB],
      seqs [num_grp 1, Star Space,
            Grp 2 (Alt (Seq (lits ''lb'') (Opt (Lit (CHR ''s''))))
                       (Seq (lits ''pound'') (Opt (Lit (CHR ''s''))))), WordB]]"

text \<open>\<^verbatim>\<open>scrape_product\<close>, lines 1199 to 1203: \<^verbatim>\<open>(\d+\.?\d*)\s*(fl\.?\s*oz|fluid\s*ounces?)\<close>,
  \<^verbatim>\<open>(\d+\.?\d*)\s*(oz|ounces?)\b\<close>, \<^verbatim>\<open>(\d+\.?\d*)\s*(ml|mL|milliliters?)\<close>,
  \<^verbatim>\<open>(\d+\.?\d*)\s*(g|grams?)\b\<close>, \<^verbatim>\<open>(\d+\.?\d*)\s*(lbs?|pounds?)\b\<close>.\<close>

definition backfill_patterns :: "rx list" where
  "backfill_patterns =
     [seqs [num_grp 1, Star Space,
            Grp 2 (Alt (seqs [lits ''fl'', Opt (Lit (CHR ''.'')), Star Space, lits ''oz''])
                       fluid_ounces)],
      seqs [num_grp 1, Star Space,
            Grp 2 (Alt (lits ''oz'') (Seq (lits ''ounce'') (Opt (Lit (CHR ''s''))))), WordB],
      seqs [num_grp 1, Star Space,
            Grp 2 (alts [lits ''ml'', lits ''mL'',
                         Seq (lits ''milliliter'') (Opt (Lit (CHR ''s'')))])],
      seqs [num_grp 1, Star Space,
            Grp 2 (Alt (lits ''g'') (Seq (lits ''gram'') (Opt (Lit (CHR ''s''))))), WordB],
      seqs [num_grp 1, Star Space,
            Grp 2 (Alt (Seq (lits ''lb'') (Opt (Lit (CHR ''s''))))
                       (Seq (lits ''pound'') (Opt (Lit (CHR ''s''))))), WordB]]"

text \<open>\<^verbatim>\<open>extract_dimensions\<close>: the six patterns of lines 1915 to 1922, each with the number
  of its groups (the length of \<^verbatim>\<open>match.groups()\<close>).\<close>

definition times_sign :: rx where
  "times_sign = Sym False [CChr (CHR ''x'')]"

definition inch_mark :: rx where
  "inch_mark = Sym False [CChr (CHR 0x22), CChr (CHR 0x27)]"

definition inches :: rx where
  "inches = seqs [lits ''inche'', Opt (Lit (CHR ''s''))]"

definition unit_in_cm_mm :: "nat \<Rightarrow> rx" where
  "unit_in_cm_mm i = Opt (Grp i (alts [lits ''in'', inches, lits ''cm'', lits ''mm'']))"

definition letter :: "char \<Rightarrow> char \<Rightarrow> rx" where
  "letter a b = Sym False [CChr a, CChr b]"

definition dim_patterns :: "(rx \<times> nat) list" where
  "dim_patterns =
     [(seqs [num_grp 1, Star Space, Opt inch_mark, Star Space, letter (CHR ''L'') (CHR ''l''),
             Star Space, times_sign, Star Space,
             num_grp 2, Star Space, Opt inch_mark, Star Space, letter (CHR ''W'') (CHR ''w''),
             Star Space, times_sign, Star Space,
             num_grp 3, Star Space, Opt inch_mark, Star Space, letter (CHR ''H'') (CHR ''h''),
             Star Space, Opt inch_mark, Star Space, unit_in_cm_mm 4], 4),
      (seqs [letter (CHR ''L'') (CHR ''l''), lits ''ength'', Star colon_space, num_grp 1,
             Star Dot, letter (CHR ''W'') (CHR ''w''), lits ''idth'', Star colon_space, num_grp 2,
             Star Dot, letter (CHR ''H'') (CHR ''h''), lits ''eight'', Star colon_space, num_grp 3,
             Star Space, unit_in_cm_mm 4], 4),
      (seqs [num_grp 1, Star Space, times_sign, Star Space, num_grp 2, Star Space, times_sign,
             Star Space, num_grp 3, Star Space,
             Opt (Grp 4 (alts [lits ''in'', inches, lits ''cm'', lits ''mm'', lits ''m'']))], 4),
      (seqs [lits ''dimension'', Opt (Lit (CHR ''s'')), Star colon_space,
             num_grp 1, Star Space, times_sign, Star Space, num_grp 2, Star Space, times_sign,
             Star Space, num_grp 3, Star Space,
             Opt (Grp 4 (alts [lits ''cm'', lits ''mm'', lits ''in'', inches, lits ''m'']))], 4),
      (seqs [num_grp 1, inch_mark, Star Space, times_sign, Star Space, num_grp 2, inch_mark], 2),
      (seqs [num_grp 1, Star Space, times_sign, Star Space, num_grp 2, Star Space,
             unit_in_cm_mm 3], 3)]"

section \<open>The parsed document\<close>

text \<open>
  BeautifulSoup is a library: the model takes what its queries return as the data of a
  page. An \<open>element\<close> is a tag with its name, its attributes (all attributes the scraper
  reads are single-valued, so a value is a string), the text \<^verbatim>\<open>get_text()\<close> and
  \<^verbatim>\<open>get_text(strip=True)\<close> return for it, its \<^verbatim>\<open>.parent\<close>, the result of
  \<^verbatim>\<open>find_all('li')\<close> below it, and \<open>dynamic_image\<close>: the value of
  \<^verbatim>\<open>json.loads(element.get('data-a-dynamic-image'))\<close>, \<open>None\<close> where that call raises.
  A tag is always true in a condition.
\<close>

datatype element = Element
  (tag: string)
  (attrs: "(string \<times> string) list")
  (get_text: string)
  (get_text_strip: string)
  (parent: "element option")
  (find_all_li: "element list")
  (dynamic_image: "pyval option")

text \<open>\<^verbatim>\<open>element.get(attr)\<close>, \<^verbatim>\<open>element.get(attr, default)\<close>, and the attribute value
  when it is true in a condition (present and not empty).\<close>

definition get_attr :: "element \<Rightarrow> string \<Rightarrow> string option" where
  "get_attr e a = map_of (attrs e) a"

definition get_attr_default :: "element \<Rightarrow> string \<Rightarrow> string \<Rightarrow> string" where
  "get_attr_default e a d = (case map_of (attrs e) a of Some v \<Rightarrow> v | None \<Rightarrow> d)"

definition truthy_attr :: "element \<Rightarrow> string \<Rightarrow> string option" where
  "truthy_attr e a = (case map_of (attrs e) a of Some v \<Rightarrow> if v = [] then None else Some v
                      | None \<Rightarrow> None)"

text \<open>
  A \<open>soup\<close> is the parsed page: \<open>select\<close> is \<^verbatim>\<open>soup.select(selector)\<close>, \<open>ld_json\<close> lists,
  for every \<^verbatim>\<open><script type="application/ld+json">\<close> in document order, the value of
  \<^verbatim>\<open>json.loads(script.string)\<close> (\<open>None\<close> where it raises), \<open>find_title\<close> is
  \<^verbatim>\<open>soup.find('title')\<close> and \<open>find_meta a v\<close> is \<^verbatim>\<open>soup.find('meta', {a: v})\<close>.
\<close>

record soup =
  select :: "string \<Rightarrow> element list"
  ld_json :: "pyval option list"
  find_title :: "element option"
  find_meta :: "string \<Rightarrow> string \<Rightarrow> element option"

text \<open>\<^verbatim>\<open>soup.select_one(selector)\<close>: the first match, if any.\<close>

definition select_one :: "soup \<Rightarrow> string \<Rightarrow> element option" where
  "select_one sp sel = (case select sp sel of [] \<Rightarrow> None | e # _ \<Rightarrow> Some e)"

section \<open>The extractors\<close>

subsection \<open>Name\<close>

definition name_selectors :: "string list" where
  \<open>name_selectors =
     [''span#productTitle'', ''h1#title span'', ''h1.a-size-large'',
      ''h1[data-automation-id="title"]'',
      ''h1'', ''[itemprop="name"]'', ''.product-name'', ''.product-title'', ''#product-title'',
      ''[data-testid="product-title"]'', ''.pdp-product-title'', ''h1.title'',
      ''h1.x-item-title__mainTitle'', ''.x-item-title h1'', ''h1 span.ux-textspans--BOLD'',
      ''h1[itemprop="name"]'', ''h1.prod-ProductTitle'',
      ''h1.product-title'',
      ''h1.product_title'', ''.product-name h1'']\<close>

definition name_of_selector :: "soup \<Rightarrow> string \<Rightarrow> string option" where
  "name_of_selector sp sel =
     (case select_one sp sel of
        None \<Rightarrow> None
      | Some e \<Rightarrow> (let name = get_text_strip e in
                   if name \<noteq> [] \<and> length name > 5 then Some name else None))"

definition extract_name :: "soup \<Rightarrow> string" where
  "extract_name sp =
     (case first_some (name_of_selector sp) name_selectors of
        Some name \<Rightarrow> name
      | None \<Rightarrow>
          (case find_title sp of
             None \<Rightarrow> ''Product name not found''
           | Some title \<Rightarrow>
               (let title_text = get_text_strip title;
                    title_text = re_sub False rx_amazon_suffix title_text;
                    title_text = re_sub False rx_pipe_suffix title_text
                in if title_text \<noteq> [] then title_text else ''Product name not found'')))"

subsection \<open>Brand\<close>

text \<open>The value of a \<^verbatim>\<open>brand\<close> entry: the \<^verbatim>\<open>name\<close> of a dict that has one, or a string.\<close>

fun brand_value :: "pyval \<Rightarrow> pyval option" where
  "brand_value (PDict b) = map_of b ''name''"
| "brand_value (PStr s) = Some (PStr s)"
| "brand_value v = None"

fun brand_of_item :: "pyval \<Rightarrow> pyval option" where
  "brand_of_item (PDict kvs) =
     (case map_of kvs ''brand'' of None \<Rightarrow> None | Some bd \<Rightarrow> brand_value bd)"
| "brand_of_item v = None"

text \<open>The body of the \<^verbatim>\<open>try\<close> block for one JSON-LD script.\<close>

fun brand_of_ld :: "pyval option \<Rightarrow> pyval option" where
  "brand_of_ld (Some (PDict kvs)) = brand_of_item (PDict kvs)"
| "brand_of_ld (Some (PList items)) = first_some brand_of_item items"
| "brand_of_ld v = None"

definition brand_selectors :: "string list" where
  \<open>brand_selectors =
     [''a#bylineInfo'', ''span.by-line a'', ''div.bylineInfo span.a-size-base'',
      ''a[id^="brand"]'', ''span.po-brand span.po-break-word'',
      ''tr.po-brand td.po-break-word span'',
      ''[itemprop="brand"]'', ''.product-brand'', ''.brand-name'',
      ''[data-testid="brand-name"]'', ''.product-brand-name'',
      ''[data-testid="product-brand"]'', ''a[link-identifier="brandName"]'',
      ''.product-brand-title'',
      ''.ux-textspans--BOLD:contains("Brand")'', ''span[itemprop="brand"]'',
      ''.ux-layout-section__row:contains("Brand") .ux-textspans--BOLD'',
      ''span:contains("Brand:") + span'', ''td:contains("Brand") + td'', ''.brand'',
      ''.manufacturer'']\<close>

definition brand_of_selector :: "soup \<Rightarrow> string \<Rightarrow> string option" where
  "brand_of_selector sp sel =
     (case select_one sp sel of
        None \<Rightarrow> None
      | Some e \<Rightarrow>
          (let brand_text = py_strip (re_sub True rx_brand_prefix (get_text_strip e))
           in if brand_text \<noteq> [] \<and> length brand_text < 50
                 \<and> brand_text \<notin> set [''Unknown'', ''N/A'']
              then Some brand_text else None))"

definition brand_of_row :: "element \<Rightarrow> string option" where
  "brand_of_row row =
     (let text = get_text row in
      if str_contains ''brand'' (py_lower text) then
        (let parts = split_on (CHR '':'') text in
         if length parts > 1 then
           (let brand = py_strip (parts ! 1) in
            if brand \<noteq> [] \<and> length brand < 50 then Some brand else None)
         else None)
      else None)"

definition spec_selectors :: "string list" where
  \<open>spec_selectors =
     [''.product-specifications'', ''[data-testid="product-specifications"]'',
      ''.specification-table'', ''table.product-specification-table'',
      ''.ux-layout-section-evo__item'', ''.ux-layout-section__row'']\<close>

text \<open>The text of a group that took part in the match (each use below reads a group that
  its pattern always sets).\<close>

definition group_text :: "rmatch \<Rightarrow> nat \<Rightarrow> string" where
  "group_text m i = (case groups m i of Some w \<Rightarrow> w | None \<Rightarrow> [])"

definition brand_of_spec :: "element \<Rightarrow> string option" where
  "brand_of_spec spec =
     (case re_search True rx_brand_spec (get_text spec) of
        None \<Rightarrow> None
      | Some m \<Rightarrow> (let brand = py_strip (group_text m 1) in
                   if brand \<noteq> [] \<and> length brand < 50 then Some brand else None))"

definition non_brand_words :: "string list" where
  "non_brand_words =
     [''New'', ''The'', ''Premium'', ''Professional'', ''Original'', ''Genuine'', ''Authentic'']"

text \<open>The last step of \<^verbatim>\<open>extract_brand\<close>: the first word of the product name.\<close>

definition brand_of_name :: "string \<Rightarrow> string" where
  "brand_of_name product_name =
     (if product_name \<noteq> [] \<and> product_name \<noteq> ''Product name not found'' then
        (case py_split product_name of
           [] \<Rightarrow> []
         | first_word # _ \<Rightarrow>
             if length first_word > 2 \<and> length first_word < 20
                \<and> (case first_word of [] \<Rightarrow> False | c # _ \<Rightarrow> is_upper c)
                \<and> first_word \<notin> set non_brand_words
             then first_word else [])
      else [])"

definition extract_brand :: "soup \<Rightarrow> string \<Rightarrow> pyval" where
  "extract_brand sp product_name =
     (case first_some brand_of_ld (ld_json sp) of
        Some b \<Rightarrow> b
      | None \<Rightarrow>
     (case first_some (brand_of_selector sp) brand_selectors of
        Some b \<Rightarrow> PStr b
      | None \<Rightarrow>
     (case first_some brand_of_row
             (select sp ''table.prodDetTable tr, div.product-facts-detail'') of
        Some b \<Rightarrow> PStr b
      | None \<Rightarrow>
     (case first_some (\<lambda>sel. first_some brand_of_spec (select sp sel)) spec_selectors of
        Some b \<Rightarrow> PStr b
      | None \<Rightarrow> PStr (brand_of_name product_name)))))"

subsection \<open>GTIN\<close>

definition gtin_keys :: "string list" where
  "gtin_keys = [''gtin'', ''gtin13'', ''gtin12'', ''gtin8'', ''isbn'', ''ean'', ''upc'']"

definition gtin_of_dict :: "(string \<times> pyval) list \<Rightarrow> pyval option" where
  "gtin_of_dict kvs = first_some (\<lambda>k. map_option (\<lambda>v. PStr (py_str v)) (map_of kvs k)) gtin_keys"

fun gtin_of_item :: "pyval \<Rightarrow> pyval option" where
  "gtin_of_item (PDict kvs) = gtin_of_dict kvs"
| "gtin_of_item v = None"

text \<open>The body of the \<^verbatim>\<open>try\<close> block for one JSON-LD script.\<close>

fun gtin_of_ld :: "pyval option \<Rightarrow> pyval option" where
  "gtin_of_ld (Some (PDict kvs)) =
     (case gtin_of_dict kvs of
        Some g \<Rightarrow> Some g
      | None \<Rightarrow> (case map_of kvs ''offers'' of
                   Some (PDict offers) \<Rightarrow> gtin_of_dict offers
                 | _ \<Rightarrow> None))"
| "gtin_of_ld (Some (PList items)) = first_some gtin_of_item items"
| "gtin_of_ld v = None"

definition gtin_selectors :: "string list" where
  \<open>gtin_selectors =
     [''[itemprop="gtin"]'', ''[itemprop="gtin13"]'', ''[itemprop="gtin12"]'',
      ''[itemprop="gtin8"]'', ''[itemprop="isbn"]'', ''.product-upc'', ''.product-ean'',
      ''.product-gtin'', ''.product-barcode'',
      ''div.product-facts-detail'', ''table.prodDetTable'',
      ''div#detailBullets_feature_div span.a-list-item'',
      ''[data-testid="product-upc"]'', ''div:contains("UPC") + div'',
      ''span:contains("UPC:") + span'', ''span:contains("EAN:") + span'',
      ''span:contains("ISBN:") + span'', ''.ux-textspans:contains("UPC")'',
      ''.ux-textspans:contains("EAN")'']\<close>

text \<open>\<^verbatim>\<open>match.group(i)\<close> as a value: \<^verbatim>\<open>None\<close> for a group that took no part.\<close>

definition group_val :: "rmatch \<Rightarrow> nat \<Rightarrow> pyval" where
  "group_val m i = (case groups m i of Some w \<Rightarrow> PStr w | None \<Rightarrow> PNone)"

definition gtin_of_element :: "element \<Rightarrow> pyval option" where
  "gtin_of_element e =
     first_some (\<lambda>pattern. map_option (\<lambda>m. group_val m 1)
                              (re_search True pattern (get_text_strip e))) gtin_patterns"

definition gtin_of_bullet :: "element \<Rightarrow> pyval option" where
  "gtin_of_bullet bullet =
     (let text = get_text bullet in
      if list_ex (\<lambda>term. str_contains term text) [''ASIN'', ''UPC'', ''EAN'', ''ISBN''] then
        (let parts = split_on (CHR '':'') text in
         if length parts > 1 then
           (let v = re_sub False rx_non_word (py_strip (parts ! 1)) in
            if v \<noteq> [] \<and> length v \<in> set [10, 12, 13] then Some (PStr v) else None)
         else None)
      else None)"

definition extract_gtin :: "soup \<Rightarrow> pyval" where
  "extract_gtin sp =
     (case first_some gtin_of_ld (ld_json sp) of
        Some g \<Rightarrow> g
      | None \<Rightarrow>
     (case first_some (\<lambda>sel. first_some gtin_of_element (select sp sel)) gtin_selectors of
        Some g \<Rightarrow> g
      | None \<Rightarrow>
     (case first_some gtin_of_bullet
             (select sp ''div#detailBullets_feature_div span.a-list-item'') of
        Some g \<Rightarrow> g
      | None \<Rightarrow> PStr [])))"

subsection \<open>Description\<close>

definition description_selectors :: "string list" where
  \<open>description_selectors =
     [''div#feature-bullets ul'', ''div.feature ul li'', ''div#productDescription'',
      ''div#productDescription_feature_div'',
      ''[itemprop="description"]'', ''.product-description'', ''.product-details'',
      ''#product-description'', ''[data-testid="product-description"]'',
      ''.pdp-product-description'', ''.description'',
      ''.x-item-description iframe'', ''.ux-section--description'',
      ''div[data-testid="x-item-description"]'', ''.d-item-description'',
      ''.product-overview'', ''.product-details-description'',
      ''div[data-cy="product-description"]'', ''.product-info-section'']\<close>

definition description_of_selector :: "soup \<Rightarrow> string \<Rightarrow> string option" where
  "description_of_selector sp sel =
     (case select_one sp sel of
        None \<Rightarrow> None
      | Some e \<Rightarrow>
          if tag e = ''ul'' then
            (let bullets = find_all_li e in
             if bullets \<noteq> []
             then Some (take 500 (join '' '' (map get_text_strip (take 5 bullets))))
             else None)
          else if tag e = ''iframe'' \<and> truthy_attr e ''src'' \<noteq> None
            then Some ''Full description available in item listing''
          else Some (take 500 (get_text_strip e)))"

definition extract_description :: "soup \<Rightarrow> string" where
  "extract_description sp =
     (case first_some (description_of_selector sp) description_selectors of
        Some d \<Rightarrow> d
      | None \<Rightarrow>
     (case find_meta sp ''name'' ''description'' of
        Some meta_desc \<Rightarrow> take 500 (get_attr_default meta_desc ''content'' [])
      | None \<Rightarrow>
     (case find_meta sp ''property'' ''og:description'' of
        Some og_desc \<Rightarrow> take 500 (get_attr_default og_desc ''content'' [])
      | None \<Rightarrow> ''Description not found'')))"

subsection \<open>Images\<close>

text \<open>What the scraper can raise besides the failures of the request.\<close>

datatype pyerr = TypeError

definition amazon_image_selectors :: "string list" where
  \<open>amazon_image_selectors =
     [''div#imageBlock img'', ''div#main-image-container img'', ''div.imgTagWrapper img'',
      ''img.a-dynamic-image'', ''img[data-a-image-name="landingImage"]'', ''div#altImages img'',
      ''div.imageThumbnail img'']\<close>

definition image_selectors :: "string list" where
  \<open>image_selectors =
     [''img[itemprop="image"]'', ''.product-image img'', ''.product-photo img'',
      ''.gallery-image img'', ''[data-testid="product-image"] img'', ''.pdp-image img'',
      ''.product-images img'',
      ''.ux-image-carousel-item img'', ''.ux-image-grid-item img'',
      ''button.ux-image-grid-item img'', ''.ux-image-carousel img'',
      ''div[data-testid="ux-image-carousel"] img'', ''.merch-image-grid img'',
      ''img.hover-zoom-hero-image'', ''img[data-testid="hero-image"]'',
      ''.product-image-main img'', ''.ProductImage img'', ''picture img'', ''.gallery img'',
      ''.thumbnail img'']\<close>

text \<open>The attribute loop of the Amazon branch: the first of \<^verbatim>\<open>src\<close>, \<^verbatim>\<open>data-src\<close>,
  \<^verbatim>\<open>data-old-hires\<close> that is not empty; failing those, the first key of the JSON object in
  \<^verbatim>\<open>data-a-dynamic-image\<close> (nothing when that is not a non-empty object).\<close>

definition amazon_src :: "element \<Rightarrow> string option" where
  "amazon_src e =
     (case truthy_attr e ''src'' of Some v \<Rightarrow> Some v | None \<Rightarrow>
     (case truthy_attr e ''data-src'' of Some v \<Rightarrow> Some v | None \<Rightarrow>
     (case truthy_attr e ''data-old-hires'' of Some v \<Rightarrow> Some v | None \<Rightarrow>
     (case truthy_attr e ''data-a-dynamic-image'' of
        None \<Rightarrow> None
      | Some v \<Rightarrow> (case dynamic_image e of
                     Some (PDict ((k, x) # kvs)) \<Rightarrow> Some k
                   | _ \<Rightarrow> None)))))"

text \<open>The \<^verbatim>\<open>or\<close> chain of the general branch.\<close>

definition generic_src :: "element \<Rightarrow> string option" where
  "generic_src e =
     first_some (truthy_attr e)
       [''src'', ''data-src'', ''data-lazy-src'', ''data-original'', ''data-zoom-image'']"

text \<open>
  \<^verbatim>\<open>urljoin\<close> of \<^verbatim>\<open>urllib.parse\<close> is a parameter of the model. The common end of both
  branches: a protocol-relative reference gets \<^verbatim>\<open>https:\<close>, the reference is resolved, and
  the result is appended unless it is already listed or ends in \<^verbatim>\<open>.gif\<close>.
\<close>

definition add_image :: "(string \<Rightarrow> string \<Rightarrow> string) \<Rightarrow> string \<Rightarrow> string \<Rightarrow> pyval list
    \<Rightarrow> pyval list" where
  "add_image urljoin base_url src images =
     (let src = (if startswith src ''//'' then ''https:'' @ src else src);
          absolute_url = urljoin base_url src
      in if PStr absolute_url \<notin> set images \<and> \<not> endswith absolute_url ''.gif''
         then images @ [PStr absolute_url] else images)"

definition amazon_step :: "(string \<Rightarrow> string \<Rightarrow> string) \<Rightarrow> string \<Rightarrow> pyval list \<Rightarrow> element
    \<Rightarrow> pyval list" where
  "amazon_step urljoin base_url images e =
     (case amazon_src e of
        None \<Rightarrow> images
      | Some src \<Rightarrow> if src \<noteq> [] \<and> \<not> startswith src ''data:''
                    then add_image urljoin base_url src images else images)"

definition generic_step :: "(string \<Rightarrow> string \<Rightarrow> string) \<Rightarrow> string \<Rightarrow> pyval list \<Rightarrow> element
    \<Rightarrow> pyval list" where
  "generic_step urljoin base_url images e =
     (case generic_src e of
        None \<Rightarrow> images
      | Some src \<Rightarrow> if startswith src ''data:'' then images
                    else add_image urljoin base_url (py_strip src) images)"

text \<open>What one JSON-LD script adds to the list: its \<^verbatim>\<open>image\<close>, a string or the items of
  a list, as they are.\<close>

fun images_of_ld :: "pyval option \<Rightarrow> pyval list" where
  "images_of_ld (Some (PDict kvs)) =
     (case map_of kvs ''image'' of
        Some (PStr s) \<Rightarrow> [PStr s]
      | Some (PList xs) \<Rightarrow> xs
      | _ \<Rightarrow> [])"
| "images_of_ld v = []"

text \<open>A list or a dict cannot be put into a set.\<close>

fun hashable :: "pyval \<Rightarrow> bool" where
  "hashable (PList xs) = False"
| "hashable (PDict kvs) = False"
| "hashable v = True"

text \<open>The loop that removes duplicates, with its set \<open>seen\<close> and its list \<open>unique_images\<close>.\<close>

fun unique_loop :: "pyval list \<Rightarrow> pyval list \<Rightarrow> pyval list \<Rightarrow> pyerr + pyval list" where
  "unique_loop seen unique_images [] = Inr unique_images"
| "unique_loop seen unique_images (img # images) =
     (if \<not> hashable img then Inl TypeError
      else if img \<in> set seen then unique_loop seen unique_images images
      else unique_loop (img # seen) (unique_images @ [img]) images)"

definition selector_images :: "(string \<Rightarrow> string \<Rightarrow> string) \<Rightarrow> soup \<Rightarrow> string \<Rightarrow> pyval list" where
  "selector_images urljoin sp base_url =
     (if str_contains ''amazon'' base_url
      then foldl (amazon_step urljoin base_url) []
             (concat (map (select sp) amazon_image_selectors))
      else foldl (generic_step urljoin base_url) []
             (concat (map (select sp) image_selectors)))"

definition extract_images :: "(string \<Rightarrow> string \<Rightarrow> string) \<Rightarrow> soup \<Rightarrow> string
    \<Rightarrow> pyerr + pyval list" where
  "extract_images urljoin sp base_url =
     (let images = selector_images urljoin sp base_url @ concat (map images_of_ld (ld_json sp))
      in case unique_loop [] [] images of
           Inl err \<Rightarrow> Inl err
         | Inr unique_images \<Rightarrow> Inr (take 10 unique_images))"

subsection \<open>Price\<close>

text \<open>\<^verbatim>\<open>if '.' not in price and price.isdigit(): price = price + '.00'\<close>.\<close>

definition pad_price :: "string \<Rightarrow> string" where
  "pad_price price =
     (if CHR ''.'' \<notin> set price \<and> py_isdigit price then price @ ''.00'' else price)"

definition top_price :: "(string \<times> pyval) list \<Rightarrow> string option" where
  "top_price kvs = map_option (\<lambda>v. pad_price (py_str v)) (map_of kvs ''price'')"

text \<open>A JSON-LD object: \<^verbatim>\<open>'price' in data['offers']\<close> and \<^verbatim>\<open>data['offers']['price']\<close> raise
  on some values of \<^verbatim>\<open>offers\<close>, which ends the \<^verbatim>\<open>try\<close> block for this script.\<close>

definition price_of_data :: "(string \<times> pyval) list \<Rightarrow> string option" where
  "price_of_data kvs =
     (case map_of kvs ''offers'' of
        None \<Rightarrow> top_price kvs
      | Some offers \<Rightarrow>
          (case py_in ''price'' offers of
             None \<Rightarrow> None
           | Some False \<Rightarrow> top_price kvs
           | Some True \<Rightarrow> map_option (\<lambda>v. pad_price (py_str v)) (py_getitem offers ''price'')))"

text \<open>An item of a JSON-LD list: here \<^verbatim>\<open>offers\<close> counts only when it is a dict.\<close>

fun price_of_item :: "pyval \<Rightarrow> string option" where
  "price_of_item (PDict kvs) =
     (case map_of kvs ''offers'' of
        Some (PDict offers) \<Rightarrow>
          (case map_of offers ''price'' of
             Some v \<Rightarrow> Some (pad_price (py_str v))
           | None \<Rightarrow> top_price kvs)
      | _ \<Rightarrow> top_price kvs)"
| "price_of_item v = None"

fun price_of_ld :: "pyval option \<Rightarrow> string option" where
  "price_of_ld (Some (PDict kvs)) = price_of_data kvs"
| "price_of_ld (Some (PList items)) = first_some price_of_item items"
| "price_of_ld v = None"

definition price_selectors :: "string list" where
  \<open>price_selectors =
     [''span.a-price.a-text-price.a-size-medium.apexPriceToPay'', ''span.a-price-whole'',
      ''.a-price .a-offscreen'', ''span.a-price > span.a-offscreen'',
      ''span[class*="price"] > span.a-offscreen'',
      ''div.a-section.a-spacing-none.aok-align-center span.a-price-whole'',
      ''span.priceToPay'', ''.reinventPricePriceToPayMargin span.a-price-whole'',
      ''[itemprop="price"]'', ''.price'', ''.product-price'', ''.current-price'',
      ''[data-testid="product-price"]'', ''.pdp-price'', ''span.price'', ''.price-now'',
      ''.x-price-primary span[itemprop="price"]'', ''.x-price-primary .ux-textspans'',
      ''span.ux-textspans[itemprop="price"]'', ''.x-bin-price__content'', ''.x-buybox-price'',
      ''span[itemprop="price"]'', ''.price-characteristic'',
      ''[data-automation-id="product-price"]'']\<close>

text \<open>The price read from the text of an element that is not a meta tag.\<close>

definition price_of_text :: "string \<Rightarrow> string option" where
  "price_of_text t =
     (let price_text = re_sub False rx_currency_code t;
          price_text = re_sub False rx_currency_symbol price_text
      in case re_search False rx_price price_text of
           None \<Rightarrow> None
         | Some m \<Rightarrow>
             (let price = remove_char (CHR '','') (group_text m 1)
              in Some (if CHR ''.'' \<notin> set price then price @ ''.00'' else price)))"

definition price_of_meta :: "element \<Rightarrow> string option" where
  "price_of_meta e =
     (let price = get_attr_default e ''content'' [] in
      if price \<noteq> [] \<and> py_isdigit (remove_char (CHR '','') (remove_char (CHR ''.'') price))
      then Some (remove_char (CHR '','') price) else None)"

definition price_of_selector :: "soup \<Rightarrow> string \<Rightarrow> string option" where
  "price_of_selector sp sel =
     (case select_one sp sel of
        None \<Rightarrow> None
      | Some e \<Rightarrow> if tag e = ''meta'' then price_of_meta e
                  else price_of_text (get_text_strip e))"

text \<open>The last resort: the whole and the fraction part of an Amazon price.\<close>

definition price_of_parent :: "element \<Rightarrow> string option" where
  "price_of_parent amazon_whole =
     (case parent amazon_whole of
        None \<Rightarrow> None
      | Some p \<Rightarrow>
          (case re_search False rx_parent_price (get_text_strip p) of
             None \<Rightarrow> None
           | Some m \<Rightarrow>
               (let price = remove_char (CHR '','') (group_text m 1)
                in Some (if CHR ''.'' \<notin> set price then price @ ''.00'' else price))))"

definition whole_fraction_price :: "soup \<Rightarrow> string option" where
  "whole_fraction_price sp =
     (case select_one sp ''span.a-price-whole'' of
        None \<Rightarrow> None
      | Some amazon_whole \<Rightarrow>
          (let whole_text = rstrip_char (CHR ''.'') (get_text_strip amazon_whole) in
           case select_one sp ''span.a-price-fraction'' of
             Some amazon_fraction \<Rightarrow> Some (whole_text @ ''.'' @ get_text_strip amazon_fraction)
           | None \<Rightarrow>
               (case price_of_parent amazon_whole of
                  Some price \<Rightarrow> Some price
                | None \<Rightarrow> Some (whole_text @ ''.00''))))"

definition extract_price :: "soup \<Rightarrow> string" where
  "extract_price sp =
     (case first_some price_of_ld (ld_json sp) of
        Some price \<Rightarrow> price
      | None \<Rightarrow>
     (case first_some (price_of_selector sp) price_selectors of
        Some price \<Rightarrow> price
      | None \<Rightarrow>
     (case whole_fraction_price sp of
        Some price \<Rightarrow> price
      | None \<Rightarrow> ''Price not found'')))"

subsection \<open>Currency\<close>

text \<open>The body of the \<^verbatim>\<open>try\<close> block for one JSON-LD script: \<open>Some v\<close> when it returns
  \<open>v\<close>, \<open>None\<close> when it falls through or raises.\<close>

fun currency_of_ld :: "pyval option \<Rightarrow> pyval option" where
  "currency_of_ld (Some (PDict kvs)) =
     (case map_of kvs ''offers'' of
        None \<Rightarrow> None
      | Some offers \<Rightarrow>
          (case py_in ''priceCurrency'' offers of
             Some True \<Rightarrow> py_getitem offers ''priceCurrency''
           | _ \<Rightarrow> None))"
| "currency_of_ld v = None"

definition extract_currency :: "soup \<Rightarrow> string \<Rightarrow> pyval" where
  "extract_currency sp url =
    (if str_contains ''amazon.ca'' url then PStr ''CAD''
     else if str_contains ''amazon.com'' url then PStr ''USD''
     else if str_contains ''amazon.co.uk'' url then PStr ''GBP''
     else if str_contains ''amazon.de'' url \<or> str_contains ''amazon.fr'' url
           \<or> str_contains ''amazon.es'' url \<or> str_contains ''amazon.it'' url then PStr ''EUR''
     else if str_contains ''amazon.co.jp'' url then PStr ''JPY''
     else if str_contains ''amazon.in'' url then PStr ''INR''
     else if str_contains ''amazon.com.au'' url then PStr ''AUD''
     else case find_meta sp ''itemprop'' ''priceCurrency'' of
       Some currency_meta \<Rightarrow> PStr (get_attr_default currency_meta ''content'' ''USD'')
     | None \<Rightarrow>
        (case first_some currency_of_ld (ld_json sp) of
           Some v \<Rightarrow> v
         | None \<Rightarrow>
            if str_contains ''walmart.ca'' url then PStr ''CAD''
            else if str_contains ''ebay.ca'' url then PStr ''CAD''
            else PStr ''USD''))"

subsection \<open>Weight\<close>

text \<open>
  A \<open>scraper\<close> is an instance of \<^verbatim>\<open>ProductScraper\<close>: the user agent that
  \<^verbatim>\<open>random.choice\<close> drew for its headers, and the attribute \<^verbatim>\<open>_last_product_name\<close>, which
  an instance has only once \<^verbatim>\<open>scrape_product\<close> has set it.
\<close>

record scraper =
  user_agent :: string
  last_product_name :: "string option"

definition weight_selectors :: "string list" where
  \<open>weight_selectors =
     [''.product-weight'', ''[itemprop="weight"]'',
      ''table.prodDetTable tr'', ''div#detailBullets_feature_div span.a-list-item'',
      ''div.product-facts-detail'',
      ''td:contains("Weight")'', ''span:contains("Weight")'']\<close>

text \<open>\<^verbatim>\<open>f"{match.group(1)} {match.group(2)}"\<close> for the first pattern that is found.\<close>

definition weight_of_text :: "rx list \<Rightarrow> string \<Rightarrow> string option" where
  "weight_of_text patterns text =
     first_some (\<lambda>pattern. map_option (\<lambda>m. group_str m 1 @ '' '' @ group_str m 2)
                              (re_search True pattern text)) patterns"

definition extract_weight :: "scraper \<Rightarrow> soup \<Rightarrow> string" where
  "extract_weight self sp =
     (case first_some (\<lambda>sel. first_some (\<lambda>e. weight_of_text weight_patterns (get_text e))
                                (select sp sel)) weight_selectors of
        Some w \<Rightarrow> w
      | None \<Rightarrow>
          (case last_product_name self of
             None \<Rightarrow> ''Weight not found''
           | Some name \<Rightarrow>
               (case weight_of_text title_patterns name of
                  Some w \<Rightarrow> w
                | None \<Rightarrow> ''Weight not found'')))"

subsection \<open>Dimensions\<close>

record dimensions =
  dim_raw :: string
  dim_length :: pyval
  dim_width :: pyval
  dim_height :: pyval
  dim_unit :: pyval

definition no_dimensions :: dimensions where
  "no_dimensions = \<lparr> dim_raw = ''Dimensions not found'', dim_length = PNone, dim_width = PNone,
                     dim_height = PNone, dim_unit = PNone \<rparr>"

definition dimensions_dict :: "dimensions \<Rightarrow> pyval" where
  "dimensions_dict d =
     PDict [(''raw'', PStr (dim_raw d)), (''length'', dim_length d), (''width'', dim_width d),
            (''height'', dim_height d), (''unit'', dim_unit d)]"

text \<open>
  \<^verbatim>\<open>float(g)\<close> for a group of a match: \<^verbatim>\<open>TypeError\<close> on \<^verbatim>\<open>None\<close>, the float on a decimal
  numeral, \<^verbatim>\<open>ValueError\<close> otherwise. (The groups of the dimension patterns hold a numeral
  \<^verbatim>\<open>\d+\.?\d*\<close> or a unit word; the other spellings \<^verbatim>\<open>float\<close> accepts do not occur.)
\<close>

datatype float_result = FloatOk pyval | FloatValueError | FloatTypeError

definition is_decimal :: "string \<Rightarrow> bool" where
  "is_decimal t =
     (let whole = takeWhile is_digit t; rest = dropWhile is_digit t
      in whole \<noteq> [] \<and> (case rest of [] \<Rightarrow> True
                         | c # ds \<Rightarrow> c = CHR ''.'' \<and> list_all is_digit ds))"

definition py_float :: "string option \<Rightarrow> float_result" where
  "py_float g =
     (case g of
        None \<Rightarrow> FloatTypeError
      | Some t \<Rightarrow> if is_decimal t then FloatOk (PFloat t) else FloatValueError)"

definition dim_units :: "string list" where
  "dim_units = [''in'', ''cm'', ''mm'', ''inches'', ''m'']"

text \<open>The assignments after a match on the page, for a pattern with \<open>n\<close> groups. A
  \<^verbatim>\<open>ValueError\<close> ends them and keeps what was assigned; a \<^verbatim>\<open>TypeError\<close> is not caught.\<close>

definition set_unit :: "string option \<Rightarrow> dimensions \<Rightarrow> dimensions" where
  "set_unit g d =
     (case g of
        Some u \<Rightarrow> if u \<in> set dim_units then d\<lparr>dim_unit := PStr u\<rparr>
                  else d\<lparr>dim_unit := PStr ''in''\<rparr>
      | None \<Rightarrow> d\<lparr>dim_unit := PStr ''in''\<rparr>)"

definition set_height :: "nat \<Rightarrow> string option list \<Rightarrow> dimensions \<Rightarrow> pyerr + dimensions" where
  "set_height n gs d =
     (if n \<ge> 3 \<and> gs ! 2 \<noteq> None \<and> gs ! 2 \<noteq> Some [] \<and> the (gs ! 2) \<notin> set dim_units then
        (case py_float (gs ! 2) of
           FloatTypeError \<Rightarrow> Inl TypeError
         | FloatValueError \<Rightarrow> Inr d
         | FloatOk h \<Rightarrow> Inr (set_unit (gs ! (n - 1)) (d\<lparr>dim_height := h\<rparr>)))
      else Inr (set_unit (gs ! (n - 1)) d))"

definition parse_dimensions :: "nat \<Rightarrow> rmatch \<Rightarrow> pyerr + dimensions" where
  "parse_dimensions n m =
     (let d = no_dimensions\<lparr>dim_raw := py_strip (group0 m)\<rparr>;
          gs = map (groups m) [1..<Suc n]
      in if n \<ge> 2 then
           (case py_float (gs ! 0) of
              FloatTypeError \<Rightarrow> Inl TypeError
            | FloatValueError \<Rightarrow> Inr d
            | FloatOk l \<Rightarrow>
                (case py_float (gs ! 1) of
                   FloatTypeError \<Rightarrow> Inl TypeError
                 | FloatValueError \<Rightarrow> Inr (d\<lparr>dim_length := l\<rparr>)
                 | FloatOk w \<Rightarrow> set_height n gs (d\<lparr>dim_length := l, dim_width := w\<rparr>)))
         else Inr d)"

definition dim_selectors :: "string list" where
  \<open>dim_selectors =
     [''table.prodDetTable tr'', ''div#detailBullets_feature_div span.a-list-item'',
      ''div.product-facts-detail'',
      ''.product-dimensions'', ''[itemprop="dimensions"]'',
      ''td:contains("Dimensions")'', ''span:contains("Dimensions")'']\<close>

definition dimensions_of_text :: "string \<Rightarrow> (pyerr + dimensions) option" where
  "dimensions_of_text text =
     first_some (\<lambda>(pattern, n). map_option (parse_dimensions n) (re_search True pattern text))
       dim_patterns"

text \<open>The two-dimensional patterns tried on the product name: only \<^verbatim>\<open>raw\<close> is set.\<close>

definition dimensions_of_name :: "string \<Rightarrow> dimensions option" where
  "dimensions_of_name name =
     first_some (\<lambda>(pattern, n). map_option (\<lambda>m. no_dimensions\<lparr>dim_raw := py_strip (group0 m)\<rparr>)
                                  (re_search True pattern name))
       (drop (length dim_patterns - 2) dim_patterns)"

definition extract_dimensions :: "scraper \<Rightarrow> soup \<Rightarrow> pyerr + pyval" where
  "extract_dimensions self sp =
     (case first_some (\<lambda>sel. first_some (\<lambda>e. dimensions_of_text (get_text e)) (select sp sel))
             dim_selectors of
        Some (Inl err) \<Rightarrow> Inl err
      | Some (Inr d) \<Rightarrow> Inr (dimensions_dict d)
      | None \<Rightarrow>
          (case last_product_name self of
             None \<Rightarrow> Inr (dimensions_dict no_dimensions)
           | Some name \<Rightarrow>
               (case dimensions_of_name name of
                  Some d \<Rightarrow> Inr (dimensions_dict d)
                | None \<Rightarrow> Inr (dimensions_dict no_dimensions))))"

section \<open>The scrape\<close>

text \<open>
  The request is the environment's: \<open>fetch\<close> is what \<^verbatim>\<open>session.get\<close> did. A \<open>response\<close>
  has its status code, its decoded body \<^verbatim>\<open>response.text\<close>, the final URL \<^verbatim>\<open>response.url\<close>,
  and \<open>page\<close>, the document \<^verbatim>\<open>BeautifulSoup(response.content, 'html.parser')\<close> builds
  from the body.
\<close>

record response =
  status_code :: nat
  response_text :: string
  final_url :: string
  page :: soup

datatype fetch =
    Timeout
  | RequestFailed string
  | Response response

text \<open>What \<^verbatim>\<open>scrape_product\<close> raises is always \<^verbatim>\<open>Exception("Failed to scrape URL: ...")\<close>;
  the model keeps the cause instead of the message.\<close>

datatype cause = RequestError string | HTTPError nat | Raised pyerr

datatype scrape_error = FailedToScrape cause

type_synonym product = "(string \<times> pyval) list"

definition debug_info :: "response \<Rightarrow> pyval" where
  "debug_info r =
     PDict [(''status'', PInt (int (status_code r))),
            (''response_length'', PInt (int (length (response_text r)))),
            (''robot_check'', PBool (str_contains ''robot check'' (py_lower (response_text r)))),
            (''captcha'', PBool (str_contains ''captcha'' (py_lower (response_text r))))]"

text \<open>The condition of line 1154.\<close>

definition blocked_check :: "response \<Rightarrow> bool" where
  "blocked_check r =
     (str_contains ''Robot Check'' (response_text r) \<or> str_contains ''captcha'' (py_lower (response_text r)))"

definition blocked_record :: "response \<Rightarrow> product" where
  "blocked_record r =
     [(''name'', PStr ''Product name not found''),
      (''brand'', PStr []),
      (''gtin'', PStr []),
      (''description'',
         PStr ''Amazon blocked automated access. Please enter details manually.''),
      (''images'', PList []),
      (''price'', PStr ''Price not found''),
      (''currency'', PStr (if str_contains ''amazon.ca'' (final_url r) then ''CAD'' else ''USD'')),
      (''source'', PStr (final_url r)),
      (''weight'', PStr ''Weight not found''),
      (''dimensions'', dimensions_dict no_dimensions),
      (''blocked'', PBool True),
      (''message'',
         PStr ''Amazon detected automated access. Please enter product details manually.''),
      (''debug_info'', debug_info r)]"

definition timeout_record :: "string \<Rightarrow> product" where
  "timeout_record requested_url =
     [(''name'', PStr ''Product name not found''),
      (''brand'', PStr []),
      (''gtin'', PStr []),
      (''description'',
         PStr ''Request timed out. The site may be slow or blocking automated access.''),
      (''images'', PList []),
      (''price'', PStr ''Price not found''),
      (''currency'', PStr ''USD''),
      (''source'', PStr requested_url),
      (''weight'', PStr ''Weight not found''),
      (''dimensions'', dimensions_dict no_dimensions),
      (''error'', PStr ''Request timed out'')]"

text \<open>Lines 1197 to 1209: the weight read from the product name when the page gave none.\<close>

definition weight_backfill :: "string \<Rightarrow> string \<Rightarrow> string" where
  "weight_backfill name weight =
     (if weight = ''Weight not found''
         \<and> list_ex (\<lambda>unit. str_contains unit (py_lower name))
              [''oz'', ''fl'', ''lb'', ''g'', ''kg'', ''ml'']
      then (case weight_of_text backfill_patterns name of
              Some w \<Rightarrow> w
            | None \<Rightarrow> weight)
      else weight)"

text \<open>The summary printed at the end slices the first image, which raises \<^verbatim>\<open>TypeError\<close>
  when a JSON-LD block put a number, a boolean or \<^verbatim>\<open>null\<close> there.\<close>

fun sliceable :: "pyval \<Rightarrow> bool" where
  "sliceable (PStr s) = True"
| "sliceable (PList xs) = True"
| "sliceable v = False"

definition print_summary :: "pyval list \<Rightarrow> pyerr option" where
  "print_summary images =
     (case images of [] \<Rightarrow> None | img # _ \<Rightarrow> if sliceable img then None else Some TypeError)"

text \<open>The part of \<^verbatim>\<open>scrape_product\<close> after the blocking check: the parsed page goes
  through the extractors, in the order in which the source calls them.\<close>

definition assemble :: "(string \<Rightarrow> string \<Rightarrow> string) \<Rightarrow> scraper \<Rightarrow> response
    \<Rightarrow> (scrape_error + product) \<times> scraper" where
  "assemble urljoin self r =
     (let sp = page r;
          name = extract_name sp;
          self = self\<lparr>last_product_name := Some name\<rparr>;
          price = extract_price sp;
          currency = extract_currency sp (final_url r);
          brand = extract_brand sp name;
          gtin = extract_gtin sp;
          description = extract_description sp
      in case extract_images urljoin sp (final_url r) of
           Inl err \<Rightarrow> (Inl (FailedToScrape (Raised err)), self)
         | Inr images \<Rightarrow>
             (let weight = extract_weight self sp in
              case extract_dimensions self sp of
                Inl err \<Rightarrow> (Inl (FailedToScrape (Raised err)), self)
              | Inr dims \<Rightarrow>
                  (case print_summary images of
                     Some err \<Rightarrow> (Inl (FailedToScrape (Raised err)), self)
                   | None \<Rightarrow>
                       (Inr [(''name'', PStr name),
                             (''brand'', brand),
                             (''gtin'', gtin),
                             (''description'', PStr description),
                             (''images'', PList images),
                             (''price'', PStr price),
                             (''currency'', currency),
                             (''source'', PStr (final_url r)),
                             (''weight'', PStr (weight_backfill name weight)),
                             (''dimensions'', dims),
                             (''blocked'', PBool False)], self))))"

text \<open>
  \<^verbatim>\<open>scrape_product\<close>. The delay that \<^verbatim>\<open>random.uniform(1, 3)\<close> drew is slept through before
  the request; \<^verbatim>\<open>raise_for_status\<close> raises on a status from 400 to 599. The result comes
  with the instance as the call leaves it.
\<close>

definition scrape_product :: "(string \<Rightarrow> string \<Rightarrow> string) \<Rightarrow> scraper \<Rightarrow> real \<Rightarrow> string \<Rightarrow> fetch
    \<Rightarrow> (scrape_error + product) \<times> scraper" where
  "scrape_product urljoin self delay requested_url f =
     (case f of
        Timeout \<Rightarrow> (Inr (timeout_record requested_url), self)
      | RequestFailed msg \<Rightarrow> (Inl (FailedToScrape (RequestError msg)), self)
      | Response r \<Rightarrow>
          if 400 \<le> status_code r \<and> status_code r < 600
          then (Inl (FailedToScrape (HTTPError (status_code r))), self)
          else if blocked_check r then (Inr (blocked_record r), self)
          else assemble urljoin self r)"

section \<open>What a match can capture\<close>

text \<open>
  The words a pattern can match, without regard to what stands around them: \<open>lang ic r\<close>.
  Every end state that the matcher lists for \<open>r\<close> has read a word of \<open>lang ic r\<close>
  (\<open>ms_sound\<close>), and so every group of a match holds a word of the pattern inside that
  group (\<open>ms_caps\<close>, for any assignment \<open>G\<close> of word sets to group numbers that \<open>grp_ok\<close>
  accepts).
\<close>

inductive_set star :: "string set \<Rightarrow> string set" for A :: "string set" where
  star_nil: "[] \<in> star A"
| star_app: "u \<in> A \<Longrightarrow> v \<in> star A \<Longrightarrow> u @ v \<in> star A"

primrec lang :: "bool \<Rightarrow> rx \<Rightarrow> string set" where
  "lang ic (Sym neg its) = {[x] | x. sym_match ic neg its x}"
| "lang ic Eps = {[]}"
| "lang ic Bol = {[]}"
| "lang ic Eol = {[]}"
| "lang ic WordB = {[]}"
| "lang ic (Seq a b) = {u @ v | u v. u \<in> lang ic a \<and> v \<in> lang ic b}"
| "lang ic (Alt a b) = lang ic a \<union> lang ic b"
| "lang ic (Star a) = star (lang ic a)"
| "lang ic (Opt a) = insert [] (lang ic a)"
| "lang ic (Grp i a) = lang ic a"

primrec grp_ok :: "bool \<Rightarrow> (nat \<Rightarrow> string set) \<Rightarrow> rx \<Rightarrow> bool" where
  "grp_ok ic G (Sym neg its) = True"
| "grp_ok ic G Eps = True"
| "grp_ok ic G Bol = True"
| "grp_ok ic G Eol = True"
| "grp_ok ic G WordB = True"
| "grp_ok ic G (Seq a b) = (grp_ok ic G a \<and> grp_ok ic G b)"
| "grp_ok ic G (Alt a b) = (grp_ok ic G a \<and> grp_ok ic G b)"
| "grp_ok ic G (Star a) = grp_ok ic G a"
| "grp_ok ic G (Opt a) = grp_ok ic G a"
| "grp_ok ic G (Grp i a) = (lang ic a \<subseteq> G i \<and> grp_ok ic G a)"

definition caps_ok :: "(nat \<Rightarrow> string set) \<Rightarrow> caps \<Rightarrow> bool" where
  "caps_ok G c = (\<forall>i w. c i = Some w \<longrightarrow> w \<in> G i)"

section \<open>Statement vocabulary and example pages\<close>

text \<open>The domains of the first table of \<^verbatim>\<open>extract_currency\<close> (lines 1809 to 1821), in
  the order in which the source tests them.\<close>

definition amazon_domains :: "string list" where
  "amazon_domains =
     [''amazon.ca'', ''amazon.com'', ''amazon.co.uk'', ''amazon.de'', ''amazon.fr'',
      ''amazon.es'', ''amazon.it'', ''amazon.co.jp'', ''amazon.in'', ''amazon.com.au'']"

definition amazon_url :: "string \<Rightarrow> bool" where
  "amazon_url url = list_ex (\<lambda>d. str_contains d url) amazon_domains"

text \<open>A page whose only content the scraper can see is
  \<^verbatim>\<open><meta itemprop="priceCurrency" content="USD">\<close>, a page whose only content is a JSON-LD
  block with \<^verbatim>\<open>{"offers": {"priceCurrency": "EUR"}}\<close>, and a page with nothing.\<close>

definition usd_meta_page :: soup where
  "usd_meta_page =
     \<lparr> select = (\<lambda>sel. []),
       ld_json = [],
       find_title = None,
       find_meta = (\<lambda>a v. if a = ''itemprop'' \<and> v = ''priceCurrency''
          then Some (Element ''meta'' [(''itemprop'', ''priceCurrency''), (''content'', ''USD'')]
                       [] [] None [] None)
          else None) \<rparr>"

definition eur_ld_page :: soup where
  "eur_ld_page =
     \<lparr> select = (\<lambda>sel. []),
       ld_json = [Some (PDict [(''offers'', PDict [(''priceCurrency'', PStr ''EUR'')])])],
       find_title = None,
       find_meta = (\<lambda>a v. None) \<rparr>"

definition empty_page :: soup where
  "empty_page =
     \<lparr> select = (\<lambda>sel. []), ld_json = [], find_title = None, find_meta = (\<lambda>a v. None) \<rparr>"

text \<open>
  In the examples, \<^verbatim>\<open>urljoin\<close> has at most absolute references to resolve, which it
  returns as they are.
\<close>

definition urljoin_absolute :: "string \<Rightarrow> string \<Rightarrow> string" where
  "urljoin_absolute base_url reference = reference"

text \<open>A fresh instance, as \<^verbatim>\<open>__init__\<close> leaves it, and an instance that has scraped a
  page before.\<close>

definition fresh_scraper :: scraper where
  "fresh_scraper =
     \<lparr> user_agent = ''Mozilla/5.0 (Windows NT 10.0; Win64; x64; rv:109.0) Gecko/20100101 Firefox/121.0'',
       last_product_name = None \<rparr>"

definition used_scraper :: scraper where
  "used_scraper =
     \<lparr> user_agent = ''Mozilla/5.0 (Macintosh; Intel Mac OS X 10_15_7) AppleWebKit/605.1.15 (KHTML, like Gecko) Version/17.1 Safari/605.1.15'',
       last_product_name = Some ''Olive Oil 500 ml'' \<rparr>"


definition robot_response :: response where
  "robot_response =
     \<lparr> status_code = 200,
       response_text = ''robot check'',
       final_url = ''https://www.amazon.com/dp/B01'',
       page = empty_page \<rparr>"

text \<open>A page whose only content the scraper can see is a JSON-LD block
  \<^verbatim>\<open>{"image": "/img/spinner.gif"}\<close>, and a response that carries it.\<close>

definition gif_ld_page :: soup where
  "gif_ld_page =
     \<lparr> select = (\<lambda>sel. []),
       ld_json = [Some (PDict [(''image'', PStr ''/img/spinner.gif'')])],
       find_title = None,
       find_meta = (\<lambda>a v. None) \<rparr>"

text \<open>The fields of the output contract that every returned record has.\<close>

definition record_fields :: "string list" where
  "record_fields =
     [''name'', ''brand'', ''gtin'', ''description'', ''images'', ''price'', ''currency'',
      ''source'', ''weight'', ''dimensions'']"

text \<open>A response whose body has no tag the scraper looks for, and the record the scrape of it
  returns.\<close>

definition plain_response :: response where
  "plain_response =
     \<lparr> status_code = 200,
       response_text = ''nothing for sale here'',
       final_url = ''https://shop.example/p/1'',
       page = empty_page \<rparr>"

definition plain_record :: product where
  "plain_record =
     [(''name'', PStr ''Product name not found''),
      (''brand'', PStr []),
      (''gtin'', PStr []),
      (''description'', PStr ''Description not found''),
      (''images'', PList []),
      (''price'', PStr ''Price not found''),
      (''currency'', PStr ''USD''),
      (''source'', PStr ''https://shop.example/p/1''),
      (''weight'', PStr ''Weight not found''),
      (''dimensions'',
         PDict [(''raw'', PStr ''Dimensions not found''), (''length'', PNone),
                (''width'', PNone), (''height'', PNone), (''unit'', PNone)]),
      (''blocked'', PBool False)]"

text \<open>What the groups of a weight pattern can hold: group 1, the number, starts with a
  digit.\<close>

definition starts_with_digit :: "nat \<Rightarrow> string set" where
  "starts_with_digit i = (if i = 1 then {w. w \<noteq> [] \<and> is_digit (hd w)} else UNIV)"




text \<open>A page with nothing but \<^verbatim>\<open><title>Garden Gnome | Shop</title>\<close>, a response that
  carries it, and the record the scrape of it returns.\<close>

definition gnome_page :: soup where
  "gnome_page =
     \<lparr> select = (\<lambda>sel. []),
       ld_json = [],
       find_title = Some (Element ''title'' [] ''Garden Gnome | Shop'' ''Garden Gnome | Shop''
                            None [] None),
       find_meta = (\<lambda>a v. None) \<rparr>"

definition gnome_response :: response where
  "gnome_response =
     \<lparr> status_code = 200,
       response_text = ''<title>Garden Gnome | Shop</title>'',
       final_url = ''https://shop.example/p/2'',
       page = gnome_page \<rparr>"

definition gnome_record :: product where
  "gnome_record =
     [(''name'', PStr ''Garden Gnome''),
      (''brand'', PStr ''Garden''),
      (''gtin'', PStr []),
      (''description'', PStr ''Description not found''),
      (''images'', PList []),
      (''price'', PStr ''Price not found''),
      (''currency'', PStr ''USD''),
      (''source'', PStr ''https://shop.example/p/2''),
      (''weight'', PStr ''Weight not found''),
      (''dimensions'',
         PDict [(''raw'', PStr ''Dimensions not found''), (''length'', PNone),
                (''width'', PNone), (''height'', PNone), (''unit'', PNone)]),
      (''blocked'', PBool False)]"





section \<open>Lemmas\<close>

subsection \<open>The matcher reads words of the pattern\<close>

lemma iter_sound:
  assumes f: "\<And>st st'. st' \<in> set (f st) \<Longrightarrow> \<exists>w\<in>A. fst (snd st) = w @ fst (snd st')"
  shows "st' \<in> set (iter n f st) \<Longrightarrow> \<exists>w\<in>star A. fst (snd st) = w @ fst (snd st')"
proof (induction n arbitrary: st)
  case 0
  then show ?case by (auto intro: star.star_nil)
next
  case (Suc n)
  from Suc.prems consider (stop) "st' = st"
    | (step) m where "m \<in> set (f st)" "st' \<in> set (iter n f m)"
    by (auto split: if_splits)
  then show ?case
  proof cases
    case stop
    then show ?thesis by (auto intro: star.star_nil)
  next
    case step
    from f [OF step(1)] obtain u where u: "u \<in> A" "fst (snd st) = u @ fst (snd m)" by blast
    from Suc.IH [OF step(2)] obtain v where v: "v \<in> star A" "fst (snd m) = v @ fst (snd st')"
      by blast
    from u v have "u @ v \<in> star A" "fst (snd st) = (u @ v) @ fst (snd st')"
      by (auto intro: star.star_app)
    then show ?thesis by blast
  qed
qed

lemma ms_sound:
  "st' \<in> set (ms ic r st) \<Longrightarrow> \<exists>w\<in>lang ic r. fst (snd st) = w @ fst (snd st')"
proof (induction r arbitrary: st st')
  case (Sym neg its)
  then show ?case by (cases st) (auto split: list.splits if_splits)
next
  case Eps
  then show ?case by simp
next
  case Bol
  then show ?case by (cases st) (auto split: if_splits)
next
  case Eol
  then show ?case by (cases st) (auto split: if_splits)
next
  case WordB
  then show ?case by (cases st) (auto split: if_splits)
next
  case (Seq a b)
  from Seq.prems obtain m where m: "m \<in> set (ms ic a st)" "st' \<in> set (ms ic b m)" by auto
  from Seq.IH(1) [OF m(1)] obtain u where u: "u \<in> lang ic a" "fst (snd st) = u @ fst (snd m)"
    by blast
  from Seq.IH(2) [OF m(2)] obtain v where v: "v \<in> lang ic b" "fst (snd m) = v @ fst (snd st')"
    by blast
  from u v have "u @ v \<in> lang ic (Seq a b)" "fst (snd st) = (u @ v) @ fst (snd st')" by auto
  then show ?case by blast
next
  case (Alt a b)
  from Alt.prems have "st' \<in> set (ms ic a st) \<or> st' \<in> set (ms ic b st)" by simp
  then show ?case
  proof
    assume h: "st' \<in> set (ms ic a st)"
    from Alt.IH(1) [OF h] show ?thesis by auto
  next
    assume h: "st' \<in> set (ms ic b st)"
    from Alt.IH(2) [OF h] show ?thesis by auto
  qed
next
  case (Star a)
  from Star.prems have "st' \<in> set (iter (length (fst (snd st))) (ms ic a) st)" by simp
  from iter_sound [of "ms ic a" "lang ic a", OF Star.IH this] show ?case by simp
next
  case (Opt a)
  from Opt.prems have "st' \<in> set (ms ic a st) \<or> st' = st" by auto
  then show ?case
  proof
    assume h: "st' \<in> set (ms ic a st)"
    from Opt.IH [OF h] show ?thesis by auto
  next
    assume "st' = st"
    then show ?thesis by simp
  qed
next
  case (Grp i a)
  obtain p rest c where st: "st = (p, rest, c)" by (cases st) auto
  from Grp.prems st obtain m where m: "m \<in> set (ms ic a st)" "fst (snd st') = fst (snd m)"
    by (auto split: prod.splits)
  from Grp.IH [OF m(1)] m(2) show ?case by simp
qed

lemma iter_caps:
  assumes f: "\<And>st st'. st' \<in> set (f st) \<Longrightarrow> P (snd (snd st)) \<Longrightarrow> P (snd (snd st'))"
  shows "st' \<in> set (iter n f st) \<Longrightarrow> P (snd (snd st)) \<Longrightarrow> P (snd (snd st'))"
proof (induction n arbitrary: st)
  case 0
  then show ?case by simp
next
  case (Suc n)
  from Suc.prems(1) consider (stop) "st' = st"
    | (step) m where "m \<in> set (f st)" "st' \<in> set (iter n f m)"
    by (auto split: if_splits)
  then show ?case
  proof cases
    case stop
    with Suc.prems show ?thesis by simp
  next
    case step
    from f [OF step(1) Suc.prems(2)] have "P (snd (snd m))" .
    from Suc.IH [OF step(2) this] show ?thesis .
  qed
qed

lemma ms_caps:
  "grp_ok ic G r \<Longrightarrow> st' \<in> set (ms ic r st) \<Longrightarrow> caps_ok G (snd (snd st))
     \<Longrightarrow> caps_ok G (snd (snd st'))"
proof (induction r arbitrary: st st')
  case (Sym neg its)
  then show ?case by (cases st) (auto split: list.splits if_splits)
next
  case Eps
  then show ?case by simp
next
  case Bol
  then show ?case by (cases st) (auto split: if_splits)
next
  case Eol
  then show ?case by (cases st) (auto split: if_splits)
next
  case WordB
  then show ?case by (cases st) (auto split: if_splits)
next
  case (Seq a b)
  from Seq.prems(2) obtain m where m: "m \<in> set (ms ic a st)" "st' \<in> set (ms ic b m)" by auto
  from Seq.prems(1) have ok: "grp_ok ic G a" "grp_ok ic G b" by simp_all
  from Seq.IH(1) [OF ok(1) m(1) Seq.prems(3)] have "caps_ok G (snd (snd m))" .
  from Seq.IH(2) [OF ok(2) m(2) this] show ?case .
next
  case (Alt a b)
  from Alt.prems(1) have ok: "grp_ok ic G a" "grp_ok ic G b" by simp_all
  from Alt.prems(2) have "st' \<in> set (ms ic a st) \<or> st' \<in> set (ms ic b st)" by simp
  then show ?case
  proof
    assume h: "st' \<in> set (ms ic a st)"
    from Alt.IH(1) [OF ok(1) h Alt.prems(3)] show ?thesis .
  next
    assume h: "st' \<in> set (ms ic b st)"
    from Alt.IH(2) [OF ok(2) h Alt.prems(3)] show ?thesis .
  qed
next
  case (Star a)
  from Star.prems(1) have ok: "grp_ok ic G a" by simp
  from Star.prems(2) have in_iter: "st' \<in> set (iter (length (fst (snd st))) (ms ic a) st)"
    by simp
  show ?case
    by (rule iter_caps [of "ms ic a" "caps_ok G", OF _ in_iter Star.prems(3)])
       (rule Star.IH [OF ok])
next
  case (Opt a)
  from Opt.prems(1) have ok: "grp_ok ic G a" by simp
  from Opt.prems(2) have "st' \<in> set (ms ic a st) \<or> st' = st" by auto
  then show ?case
  proof
    assume h: "st' \<in> set (ms ic a st)"
    from Opt.IH [OF ok h Opt.prems(3)] show ?thesis .
  next
    assume "st' = st"
    with Opt.prems(3) show ?thesis by simp
  qed
next
  case (Grp i a)
  obtain p rest c where st: "st = (p, rest, c)" by (cases st) auto
  from Grp.prems(2) st obtain p' rest' c' where
    m: "(p', rest', c') \<in> set (ms ic a st)"
    and st': "st' = (p', rest', c'(i \<mapsto> take (length rest - length rest') rest))"
    by (auto split: prod.splits)
  from Grp.prems(1) have ok: "lang ic a \<subseteq> G i" "grp_ok ic G a" by simp_all
  from Grp.IH [OF ok(2) m Grp.prems(3)] have c': "caps_ok G c'" by simp
  from ms_sound [OF m] st obtain w where w: "w \<in> lang ic a" "rest = w @ rest'" by auto
  then have "take (length rest - length rest') rest = w" by simp
  with w ok(1) c' st' show ?case by (auto simp: caps_ok_def)
qed

lemma match_at_in:
  assumes "match_at ic r prev rest = Some m"
  shows "\<exists>st'\<in>set (ms ic r (prev, rest, Map.empty)).
           groups m = snd (snd st') \<and> after m = fst (snd st') \<and>
           group0 m = take (length rest - length (fst (snd st'))) rest"
proof (cases "ms ic r (prev, rest, Map.empty)")
  case Nil
  with assms show ?thesis by (simp add: match_at_def)
next
  case (Cons st' l)
  obtain p' rest' c' where "st' = (p', rest', c')" by (cases st') auto
  with Cons assms show ?thesis by (auto simp: match_at_def)
qed

lemma match_at_caps:
  assumes ok: "grp_ok ic G r" and m: "match_at ic r prev rest = Some m"
  shows "caps_ok G (groups m)"
proof -
  from match_at_in [OF m] obtain st' where
    st': "st' \<in> set (ms ic r (prev, rest, Map.empty))" "groups m = snd (snd st')" by blast
  have "caps_ok G (snd (snd (prev, rest, Map.empty :: caps)))" by (simp add: caps_ok_def)
  from ms_caps [OF ok st'(1) this] st'(2) show ?thesis by simp
qed

lemma search_from_caps:
  "grp_ok ic G r \<Longrightarrow> search_from ic r prev s = Some m \<Longrightarrow> caps_ok G (groups m)"
proof (induction s arbitrary: prev)
  case Nil
  then show ?case using match_at_caps by simp
next
  case (Cons x xs)
  show ?case
  proof (cases "match_at ic r prev (x # xs)")
    case None
    with Cons show ?thesis by simp
  next
    case (Some m')
    with Cons.prems have "m' = m" by simp
    with Some match_at_caps [OF Cons.prems(1)] show ?thesis by simp
  qed
qed

subsection \<open>Loops that stop at the first result\<close>

lemma first_some_None_iff: "first_some f xs = None \<longleftrightarrow> list_all (\<lambda>x. f x = None) xs"
  by (induction xs) (auto split: option.splits)

lemma first_some_Some: "first_some f xs = Some y \<Longrightarrow> \<exists>x\<in>set xs. f x = Some y"
  by (induction xs) (auto split: option.splits)

subsection \<open>Digits, numbers and prices\<close>

lemma lower_not_digit: "l \<in> set lowers \<Longrightarrow> \<not> is_digit l"
  by (auto simp: lowers_def is_digit_def digits_def)

lemma upper_not_digit: "u \<in> set uppers \<Longrightarrow> \<not> is_digit u"
  by (auto simp: uppers_def is_digit_def digits_def)

lemma lower_char_cases: "lower_char x = x \<or> lower_char x \<in> set lowers"
proof (cases "map_of (zip uppers lowers) x")
  case None
  then show ?thesis by (simp add: lower_char_def)
next
  case (Some l)
  then have "(x, l) \<in> set (zip uppers lowers)" by (rule map_of_SomeD)
  then have "l \<in> set lowers" by (rule set_zip_rightD)
  with Some show ?thesis by (simp add: lower_char_def)
qed

lemma upper_char_cases: "upper_char x = x \<or> upper_char x \<in> set uppers"
proof (cases "map_of (zip lowers uppers) x")
  case None
  then show ?thesis by (simp add: upper_char_def)
next
  case (Some u)
  then have "(x, u) \<in> set (zip lowers uppers)" by (rule map_of_SomeD)
  then have "u \<in> set uppers" by (rule set_zip_rightD)
  with Some show ?thesis by (simp add: upper_char_def)
qed

lemma is_digit_lower: "is_digit (lower_char x) \<Longrightarrow> is_digit x"
  using lower_char_cases [of x] lower_not_digit [of "lower_char x"] by auto

lemma is_digit_upper: "is_digit (upper_char x) \<Longrightarrow> is_digit x"
  using upper_char_cases [of x] upper_not_digit [of "upper_char x"] by auto

lemma sym_digit: "sym_match ic False [CDigit] x = is_digit x"
  using is_digit_lower [of x] is_digit_upper [of x] by (auto simp: sym_match_def)

lemma lang_Digit: "lang ic Digit = {[x] | x. is_digit x}"
  by (simp add: Digit_def sym_digit)

lemma lang_star_digit: "w \<in> star (lang ic Digit) \<Longrightarrow> list_all is_digit w"
proof (induction rule: star.induct)
  case star_nil
  then show ?case by simp
next
  case (star_app u v)
  then show ?case by (auto simp: lang_Digit)
qed



lemma lang_plus_digit:
  assumes "w \<in> lang ic (Plus Digit)"
  shows "w \<noteq> [] \<and> is_digit (hd w) \<and> list_all is_digit w"
proof -
  from assms obtain u v where w: "w = u @ v" "u \<in> lang ic Digit" "v \<in> star (lang ic Digit)"
    by (auto simp: Plus_def)
  from lang_star_digit [OF w(3)] w(1,2) show ?thesis by (auto simp: lang_Digit)
qed

lemma lang_num:
  "lang ic (seqs [Plus Digit, Opt (Lit (CHR ''.'')), Star Digit]) \<subseteq> starts_with_digit 1"
proof
  fix w assume "w \<in> lang ic (seqs [Plus Digit, Opt (Lit (CHR ''.'')), Star Digit])"
  then obtain u v where w: "w = u @ v" "u \<in> lang ic (Plus Digit)" by auto
  from lang_plus_digit [OF w(2)] w(1) show "w \<in> starts_with_digit 1"
    by (simp add: starts_with_digit_def)
qed

lemma grp_ok_num: "grp_ok ic starts_with_digit (num_grp 1)"
proof -
  have "grp_ok ic starts_with_digit (seqs [Plus Digit, Opt (Lit (CHR ''.'')), Star Digit])"
    by (simp add: Plus_def Digit_def Lit_def)
  with lang_num [of ic] show ?thesis by (simp add: num_grp_def)
qed

lemma grp_ok_seqs: "grp_ok ic G (seqs rs) = list_all (grp_ok ic G) rs"
  by (induction rs rule: seqs.induct) simp_all

lemma grp_ok_alts: "grp_ok ic G (alts rs) = list_all (grp_ok ic G) rs"
  by (induction rs rule: alts.induct) simp_all

lemma grp_ok_lits: "grp_ok ic G (lits s)"
  by (simp add: lits_def grp_ok_seqs list_all_iff Lit_def)

lemma grp_ok_unit: "grp_ok ic starts_with_digit (Grp 2 a) = grp_ok ic starts_with_digit a"
  by (simp add: starts_with_digit_def)

lemma grp_ok_num_Suc: "grp_ok ic starts_with_digit (num_grp (Suc 0))"
  using grp_ok_num [of ic] by simp

lemmas grp_ok_atoms =
  grp_ok_seqs grp_ok_alts grp_ok_lits grp_ok_unit grp_ok_num grp_ok_num_Suc
  Space_def Lit_def colon_space_def

lemma weight_patterns_ok: "list_all (grp_ok True starts_with_digit) weight_patterns"
  by (simp add: weight_patterns_def weight_unit_def fluid_ounces_def grp_ok_atoms
        del: grp_ok.simps(10))

lemma title_patterns_ok: "list_all (grp_ok True starts_with_digit) title_patterns"
  by (simp add: title_patterns_def fluid_ounces_def grp_ok_atoms del: grp_ok.simps(10))

lemma backfill_in_title: "set backfill_patterns \<subseteq> set title_patterns"
  by (simp add: backfill_patterns_def title_patterns_def)

lemma weight_of_text_not_sentinel:
  assumes ok: "list_all (grp_ok True starts_with_digit) ps"
    and w: "weight_of_text ps t = Some w"
  shows "w \<noteq> ''Weight not found''"
proof -
  from w obtain p where p: "p \<in> set ps"
    and pm: "map_option (\<lambda>m. group_str m 1 @ '' '' @ group_str m 2) (re_search True p t) = Some w"
    unfolding weight_of_text_def by (blast dest: first_some_Some)
  from pm obtain m where m: "re_search True p t = Some m"
    and wm: "w = group_str m 1 @ '' '' @ group_str m 2"
    by (cases "re_search True p t") auto
  from ok p have "grp_ok True starts_with_digit p" by (simp add: list_all_iff)
  from search_from_caps [OF this] m have caps: "caps_ok starts_with_digit (groups m)"
    by (simp add: re_search_def)
  show ?thesis
  proof (cases "groups m 1")
    case None
    with wm show ?thesis by (simp add: group_str_def)
  next
    case (Some g)
    with caps have "g \<in> starts_with_digit 1" by (simp add: caps_ok_def)
    then obtain c cs where g: "g = c # cs" "is_digit c"
      by (cases g) (auto simp: starts_with_digit_def)
    from g(2) have "c \<noteq> CHR ''W''" by (auto simp: is_digit_def digits_def)
    with wm Some g(1) show ?thesis by (simp add: group_str_def)
  qed
qed

lemma weight_of_text_None:
  "weight_of_text ps t = None \<longleftrightarrow> (\<forall>p\<in>set ps. re_search True p t = None)"
  by (simp add: weight_of_text_def first_some_None_iff list_all_iff)

lemma extract_weight_sentinel:
  assumes "extract_weight (self\<lparr>last_product_name := Some name\<rparr>) sp = ''Weight not found''"
  shows "weight_of_text title_patterns name = None"
proof (cases "first_some (\<lambda>sel. first_some (\<lambda>e. weight_of_text weight_patterns (get_text e))
                             (select sp sel)) weight_selectors")
  case (Some w)
  then obtain sel where
    "first_some (\<lambda>e. weight_of_text weight_patterns (get_text e)) (select sp sel) = Some w"
    by (blast dest: first_some_Some)
  then obtain e where "weight_of_text weight_patterns (get_text e) = Some w"
    by (blast dest: first_some_Some)
  from weight_of_text_not_sentinel [OF weight_patterns_ok this] Some assms
  show ?thesis by (simp add: extract_weight_def)
next
  case None
  show ?thesis
  proof (cases "weight_of_text title_patterns name")
    case (Some w)
    from weight_of_text_not_sentinel [OF title_patterns_ok this] Some None assms
    show ?thesis by (simp add: extract_weight_def)
  next
    case None
    then show ?thesis .
  qed
qed

lemma backfill_no_match:
  assumes "extract_weight (self\<lparr>last_product_name := Some name\<rparr>) sp = ''Weight not found''"
  shows "weight_of_text backfill_patterns name = None"
  using extract_weight_sentinel [OF assms] backfill_in_title
  by (auto simp: weight_of_text_None)







lemma lang_Lit: "lang ic (Lit c) = {[x] | x. sym_match ic False [CChr c] x}"
  by (simp add: Lit_def)















subsection \<open>The assembled record\<close>

lemma assemble_self:
  "fst (assemble urljoin self r) = fst (assemble urljoin self' r)"
  by (simp add: assemble_def Let_def extract_weight_def extract_dimensions_def
        split: sum.splits option.splits)

lemma assemble_fields:
  assumes "fst (assemble urljoin self r) = Inr rec"
  shows "list_all (\<lambda>k. map_of rec k \<noteq> None) record_fields \<and>
         map_of rec ''blocked'' = Some (PBool False)"
  using assms
  by (auto simp: assemble_def Let_def record_fields_def split: sum.splits option.splits)

lemma brand_of_selector_empty: "select sp sel = [] \<Longrightarrow> brand_of_selector sp sel = None"
  by (simp add: brand_of_selector_def select_one_def)

lemma plain_response_record:
  "fst (scrape_product urljoin_absolute fresh_scraper 2 ''https://shop.example/p/1''
          (Response plain_response)) = Inr plain_record"
  by code_simp

lemma gnome_response_record:
  "fst (scrape_product urljoin_absolute fresh_scraper 2 ''https://shop.example/p/2''
          (Response gnome_response)) = Inr gnome_record"
  by code_simp

lemma backfill_identity:
  "weight_backfill name (extract_weight (self\<lparr>last_product_name := Some name\<rparr>) sp)
     = extract_weight (self\<lparr>last_product_name := Some name\<rparr>) sp"
proof (cases "extract_weight (self\<lparr>last_product_name := Some name\<rparr>) sp = ''Weight not found''")
  case True
  from backfill_no_match [OF True] show ?thesis by (simp add: weight_backfill_def)
next
  case False
  then show ?thesis by (simp add: weight_backfill_def)
qed

lemma assemble_weight:
  assumes "fst (assemble urljoin self r) = Inr rec"
  shows "map_of rec ''weight''
     = Some (PStr (weight_backfill (extract_name (page r))
          (extract_weight (self\<lparr>last_product_name := Some (extract_name (page r))\<rparr>) (page r))))"
  using assms
  by (auto simp: assemble_def Let_def split: sum.splits option.splits)

section \<open>Results\<close>



text \<open>
  C2, at a body that reads \<^verbatim>\<open>robot check\<close> in lower case, with status 200: the
  \<^verbatim>\<open>robot_check\<close> flag of line 1145, which lowers the body first, is true, but the condition
  of line 1154 looks for \<^verbatim>\<open>Robot Check\<close> as written, so the scrape goes on through the
  extractors and returns a record that is not blocked.
\<close>

theorem C2_lower_case_robot_check:
  "str_contains ''robot check'' (py_lower (response_text robot_response)) \<and>
   status_code robot_response = 200 \<and>
   fst (scrape_product urljoin_absolute fresh_scraper 2 ''https://www.amazon.com/dp/B01''
          (Response robot_response)) =
     Inr [(''name'', PStr ''Product name not found''),
          (''brand'', PStr []),
          (''gtin'', PStr []),
          (''description'', PStr ''Description not found''),
          (''images'', PList []),
          (''price'', PStr ''Price not found''),
          (''currency'', PStr ''USD''),
          (''source'', PStr ''https://www.amazon.com/dp/B01''),
          (''weight'', PStr ''Weight not found''),
          (''dimensions'',
             PDict [(''raw'', PStr ''Dimensions not found''), (''length'', PNone),
                    (''width'', PNone), (''height'', PNone), (''unit'', PNone)]),
          (''blocked'', PBool False)]"
  by code_simp

text \<open>
  C3, at a page whose only image is the \<^verbatim>\<open>image\<close> of a JSON-LD block: the two selector
  branches resolve a reference and leave out a URL that ends in \<^verbatim>\<open>.gif\<close>, but what the
  JSON-LD loop appends goes into the result as it is, here a relative URL that ends in
  \<^verbatim>\<open>.gif\<close>.
\<close>

theorem C3_json_ld_gif:
  "extract_images urljoin_absolute gif_ld_page ''https://shop.example/p/1''
     = Inr [PStr ''/img/spinner.gif''] \<and>
   endswith ''/img/spinner.gif'' ''.gif'' \<and>
   \<not> str_contains ''://'' ''/img/spinner.gif''"
  by code_simp





text \<open>
  C5. When the request times out, \<open>scrape_product\<close> returns (it does not raise) the record
  with name, price, weight and \<^verbatim>\<open>dimensions.raw\<close> at their sentinels, brand and GTIN empty,
  no images, USD as currency, the description that begins \<^verbatim>\<open>Request timed out\<close>, and no
  \<^verbatim>\<open>blocked\<close> key.
\<close>

theorem C5_timeout_record:
  "scrape_product urljoin self delay requested_url Timeout =
     (Inr [(''name'', PStr ''Product name not found''),
           (''brand'', PStr []),
           (''gtin'', PStr []),
           (''description'',
              PStr ''Request timed out. The site may be slow or blocking automated access.''),
           (''images'', PList []),
           (''price'', PStr ''Price not found''),
           (''currency'', PStr ''USD''),
           (''source'', PStr requested_url),
           (''weight'', PStr ''Weight not found''),
           (''dimensions'',
              PDict [(''raw'', PStr ''Dimensions not found''), (''length'', PNone),
                     (''width'', PNone), (''height'', PNone), (''unit'', PNone)]),
           (''error'', PStr ''Request timed out'')],
      self)
   \<and> map_of (timeout_record requested_url) ''blocked'' = None
   \<and> fst (scrape_product urljoin self delay requested_url Timeout)
       = Inr (timeout_record requested_url)"
  by (simp add: scrape_product_def timeout_record_def dimensions_dict_def no_dimensions_def)

text \<open>
  C6, as stated: every field of the contract, \<^verbatim>\<open>blocked\<close> among them, is in every returned
  record. The record of the timeout path has no \<^verbatim>\<open>blocked\<close> key.
\<close>

theorem C6_timeout_counterexample:
  "fst (scrape_product urljoin_absolute fresh_scraper 2 ''https://shop.example/p/1'' Timeout)
     = Inr (timeout_record ''https://shop.example/p/1'') \<and>
   map_of (timeout_record ''https://shop.example/p/1'') ''blocked'' = None"
  by (simp add: scrape_product_def timeout_record_def)

text \<open>
  C6, amended. Every record that \<open>scrape_product\<close> returns, on the success path, the blocked
  path and the timeout path, has the fields name, brand, gtin, description, images, price,
  currency, source, weight and dimensions. On the success and the blocked path it has
  \<^verbatim>\<open>blocked\<close> as well, false and true; on the timeout path it has no \<^verbatim>\<open>blocked\<close> key and
  has an \<^verbatim>\<open>error\<close> key.
\<close>

theorem C6_fields_present:
  assumes "fst (scrape_product urljoin self delay requested_url f) = Inr rec"
  shows "list_all (\<lambda>k. map_of rec k \<noteq> None) record_fields \<and>
         (f = Timeout \<longrightarrow> map_of rec ''blocked'' = None \<and> map_of rec ''error'' \<noteq> None) \<and>
         (\<forall>r. f = Response r \<longrightarrow> map_of rec ''blocked'' = Some (PBool (blocked_check r)))"
proof (cases f)
  case Timeout
  with assms show ?thesis
    by (auto simp: scrape_product_def timeout_record_def record_fields_def)
next
  case (RequestFailed msg)
  with assms show ?thesis by (simp add: scrape_product_def)
next
  case (Response r)
  show ?thesis
  proof (cases "blocked_check r")
    case True
    with assms Response show ?thesis
      by (auto simp: scrape_product_def blocked_record_def record_fields_def split: if_splits)
  next
    case False
    with assms Response have "fst (assemble urljoin self r) = Inr rec"
      by (simp add: scrape_product_def split: if_splits)
    from assemble_fields [OF this] False Response show ?thesis by simp
  qed
qed

theorem C6_fields_present_witness:
  "fst (scrape_product urljoin_absolute fresh_scraper 2 ''https://shop.example/p/1''
          (Response plain_response)) = Inr plain_record \<and>
   list_all (\<lambda>k. map_of plain_record k \<noteq> None) record_fields \<and>
   map_of plain_record ''blocked'' = Some (PBool (blocked_check plain_response))"
proof -
  have h: "fst (scrape_product urljoin_absolute fresh_scraper 2 ''https://shop.example/p/1''
                  (Response plain_response)) = Inr plain_record"
    by (rule plain_response_record)
  from C6_fields_present [OF h] h show ?thesis by blast
qed

text \<open>
  C7, as stated: a URL of a \<^verbatim>\<open>.ca\<close> retailer domain gives CAD whatever the page says.
  It fails for \<^verbatim>\<open>walmart.ca\<close>, which the code looks up only after the page's
  \<^verbatim>\<open>priceCurrency\<close> meta tag.
\<close>

theorem C7_walmart_ca_counterexample:
  "str_contains ''walmart.ca'' ''https://www.walmart.ca/en/ip/6000'' \<and>
   extract_currency usd_meta_page ''https://www.walmart.ca/en/ip/6000'' \<noteq> PStr ''CAD''"
  by (simp add: extract_currency_def usd_meta_page_def get_attr_default_def)

text \<open>
  C7, amended. For every URL containing \<^verbatim>\<open>amazon.ca\<close>, \<open>extract_currency\<close> returns CAD
  whatever the page contains, and for every URL containing \<^verbatim>\<open>amazon.co.uk\<close> (and neither
  \<^verbatim>\<open>amazon.ca\<close> nor \<^verbatim>\<open>amazon.com\<close>, which are tested before it) it returns GBP whatever
  the page contains. The whole Amazon domain table is consulted before the \<^verbatim>\<open>priceCurrency\<close>
  meta tag and before the structured metadata: for a URL containing any of its domains the
  result is the same on every page. For a URL containing none of them the page decides
  first, the meta tag (its \<^verbatim>\<open>content\<close>, or USD without one) before the first JSON-LD block
  that yields \<^verbatim>\<open>offers.priceCurrency\<close>; only when the page gives neither do \<^verbatim>\<open>walmart.ca\<close>
  and \<^verbatim>\<open>ebay.ca\<close> give CAD, and any other URL USD.
\<close>

theorem C7_currency_precedence:
  "(str_contains ''amazon.ca'' url \<longrightarrow> extract_currency sp url = PStr ''CAD'') \<and>
   (str_contains ''amazon.co.uk'' url \<and> \<not> str_contains ''amazon.ca'' url
      \<and> \<not> str_contains ''amazon.com'' url \<longrightarrow> extract_currency sp url = PStr ''GBP'') \<and>
   (amazon_url url \<longrightarrow> extract_currency sp url = extract_currency sp' url) \<and>
   (\<not> amazon_url url \<and> find_meta sp ''itemprop'' ''priceCurrency'' = Some m \<longrightarrow>
      extract_currency sp url = PStr (get_attr_default m ''content'' ''USD'')) \<and>
   (\<not> amazon_url url \<and> find_meta sp ''itemprop'' ''priceCurrency'' = None
      \<and> first_some currency_of_ld (ld_json sp) = Some v \<longrightarrow> extract_currency sp url = v) \<and>
   (\<not> amazon_url url \<and> find_meta sp ''itemprop'' ''priceCurrency'' = None
      \<and> first_some currency_of_ld (ld_json sp) = None \<longrightarrow>
      extract_currency sp url =
        (if str_contains ''walmart.ca'' url \<or> str_contains ''ebay.ca'' url
         then PStr ''CAD'' else PStr ''USD''))"
  by (simp add: extract_currency_def amazon_url_def amazon_domains_def)

theorem C7_currency_precedence_witness:
  "str_contains ''amazon.ca'' ''https://www.amazon.ca/dp/B01'' \<and>
   extract_currency usd_meta_page ''https://www.amazon.ca/dp/B01'' = PStr ''CAD'' \<and>
   str_contains ''amazon.co.uk'' ''https://www.amazon.co.uk/dp/B01'' \<and>
   \<not> str_contains ''amazon.ca'' ''https://www.amazon.co.uk/dp/B01'' \<and>
   \<not> str_contains ''amazon.com'' ''https://www.amazon.co.uk/dp/B01'' \<and>
   extract_currency usd_meta_page ''https://www.amazon.co.uk/dp/B01'' = PStr ''GBP'' \<and>
   amazon_url ''https://www.amazon.de/dp/B01'' \<and>
   extract_currency usd_meta_page ''https://www.amazon.de/dp/B01''
     = extract_currency eur_ld_page ''https://www.amazon.de/dp/B01'' \<and>
   \<not> amazon_url ''https://www.ebay.ca/itm/1'' \<and>
   find_meta usd_meta_page ''itemprop'' ''priceCurrency''
     = Some (Element ''meta'' [(''itemprop'', ''priceCurrency''), (''content'', ''USD'')]
               [] [] None [] None) \<and>
   extract_currency usd_meta_page ''https://www.ebay.ca/itm/1'' = PStr ''USD'' \<and>
   find_meta eur_ld_page ''itemprop'' ''priceCurrency'' = None \<and>
   first_some currency_of_ld (ld_json eur_ld_page) = Some (PStr ''EUR'') \<and>
   extract_currency eur_ld_page ''https://www.ebay.ca/itm/1'' = PStr ''EUR'' \<and>
   find_meta empty_page ''itemprop'' ''priceCurrency'' = None \<and>
   first_some currency_of_ld (ld_json empty_page) = None \<and>
   extract_currency empty_page ''https://www.ebay.ca/itm/1'' = PStr ''CAD''"
proof -
  let ?meta = "Element ''meta'' [(''itemprop'', ''priceCurrency''), (''content'', ''USD'')]
                 [] [] None [] None"
  have ca: "str_contains ''amazon.ca'' ''https://www.amazon.ca/dp/B01''" by simp
  have uk: "str_contains ''amazon.co.uk'' ''https://www.amazon.co.uk/dp/B01'' \<and>
            \<not> str_contains ''amazon.ca'' ''https://www.amazon.co.uk/dp/B01'' \<and>
            \<not> str_contains ''amazon.com'' ''https://www.amazon.co.uk/dp/B01''" by simp
  have de: "amazon_url ''https://www.amazon.de/dp/B01''"
    by (simp add: amazon_url_def amazon_domains_def)
  have ebay: "\<not> amazon_url ''https://www.ebay.ca/itm/1''"
    by (simp add: amazon_url_def amazon_domains_def)
  have meta: "find_meta usd_meta_page ''itemprop'' ''priceCurrency'' = Some ?meta"
    by (simp add: usd_meta_page_def)
  have ld: "find_meta eur_ld_page ''itemprop'' ''priceCurrency'' = None \<and>
            first_some currency_of_ld (ld_json eur_ld_page) = Some (PStr ''EUR'')"
    by (simp add: eur_ld_page_def)
  have none: "find_meta empty_page ''itemprop'' ''priceCurrency'' = None \<and>
              first_some currency_of_ld (ld_json empty_page) = None"
    by (simp add: empty_page_def)
  from C7_currency_precedence [of "''https://www.amazon.ca/dp/B01''" usd_meta_page] ca
  have r1: "extract_currency usd_meta_page ''https://www.amazon.ca/dp/B01'' = PStr ''CAD''"
    by blast
  from C7_currency_precedence [of "''https://www.amazon.co.uk/dp/B01''" usd_meta_page] uk
  have r2: "extract_currency usd_meta_page ''https://www.amazon.co.uk/dp/B01'' = PStr ''GBP''"
    by blast
  from C7_currency_precedence [of "''https://www.amazon.de/dp/B01''" usd_meta_page eur_ld_page] de
  have r3: "extract_currency usd_meta_page ''https://www.amazon.de/dp/B01''
              = extract_currency eur_ld_page ''https://www.amazon.de/dp/B01''"
    by blast
  from C7_currency_precedence [of "''https://www.ebay.ca/itm/1''" usd_meta_page _ ?meta] ebay meta
  have r4: "extract_currency usd_meta_page ''https://www.ebay.ca/itm/1''
              = PStr (get_attr_default ?meta ''content'' ''USD'')"
    by blast
  from C7_currency_precedence [of "''https://www.ebay.ca/itm/1''" eur_ld_page _ _ "PStr ''EUR''"]
    ebay ld
  have r5: "extract_currency eur_ld_page ''https://www.ebay.ca/itm/1'' = PStr ''EUR''"
    by blast
  from C7_currency_precedence [of "''https://www.ebay.ca/itm/1''" empty_page] ebay none
  have r6: "extract_currency empty_page ''https://www.ebay.ca/itm/1''
              = (if str_contains ''walmart.ca'' ''https://www.ebay.ca/itm/1''
                    \<or> str_contains ''ebay.ca'' ''https://www.ebay.ca/itm/1''
                 then PStr ''CAD'' else PStr ''USD'')"
    by blast
  from r4 have r4': "extract_currency usd_meta_page ''https://www.ebay.ca/itm/1'' = PStr ''USD''"
    by (simp add: get_attr_default_def)
  from r6 have r6': "extract_currency empty_page ''https://www.ebay.ca/itm/1'' = PStr ''CAD''"
    by simp
  from ca uk de ebay meta ld none r1 r2 r3 r4' r5 r6' show ?thesis by blast
qed

text \<open>
  C8, as stated: with no brand anywhere on the page, the first word of the product name is
  the brand whenever it starts with an upper-case letter, is between 3 and 19 characters
  long and is not on the stoplist. For the name \<^verbatim>\<open>Product name not found\<close>, which
  \<open>extract_name\<close> returns for a page without a name, the word \<^verbatim>\<open>Product\<close> passes all three
  tests and the brand is empty all the same: line 1401 excludes that name.
\<close>

theorem C8_sentinel_counterexample:
  "extract_brand empty_page ''Product name not found'' = PStr [] \<and>
   py_split ''Product name not found'' = [''Product'', ''name'', ''not'', ''found''] \<and>
   is_upper (hd ''Product'') \<and> 2 < length ''Product'' \<and> length ''Product'' < 20 \<and>
   ''Product'' \<notin> set [''New'', ''The'', ''Premium'', ''Professional'', ''Original'',
                         ''Genuine'', ''Authentic'']"
  by code_simp

text \<open>
  C8, amended. For every document in which no JSON-LD block yields a brand, no brand
  selector matches, and no row of the detail table and no specification region yields a
  brand, and for every product name other than the sentinel \<^verbatim>\<open>Product name not found\<close>,
  \<open>extract_brand\<close> returns the first word of the product name exactly when that word starts
  with an upper-case letter, has a length strictly between 2 and 20 and is not one of New,
  The, Premium, Professional, Original, Genuine, Authentic; otherwise it returns the empty
  string. The name \<^verbatim>\<open>Acme Heavy-Duty Widget\<close> gives Acme, and \<^verbatim>\<open>New Widget Pro\<close> gives the
  empty string.
\<close>

theorem C8_brand_from_name:
  assumes "list_all (\<lambda>d. brand_of_ld d = None) (ld_json sp)"
    and "list_all (\<lambda>sel. select sp sel = []) brand_selectors"
    and "list_all (\<lambda>row. brand_of_row row = None)
           (select sp ''table.prodDetTable tr, div.product-facts-detail'')"
    and "list_all (\<lambda>sel. list_all (\<lambda>e. brand_of_spec e = None) (select sp sel)) spec_selectors"
    and "product_name \<noteq> ''Product name not found''"
  shows "extract_brand sp product_name =
     PStr (case py_split product_name of
             [] \<Rightarrow> []
           | w # ws \<Rightarrow>
               if is_upper (hd w) \<and> 2 < length w \<and> length w < 20
                  \<and> w \<notin> set [''New'', ''The'', ''Premium'', ''Professional'', ''Original'',
                                ''Genuine'', ''Authentic'']
               then w else [])"
proof -
  have a: "first_some brand_of_ld (ld_json sp) = None"
    using assms(1) by (simp add: first_some_None_iff)
  have "list_all (\<lambda>sel. brand_of_selector sp sel = None) brand_selectors"
    using assms(2) brand_of_selector_empty [of sp] by (auto simp: list_all_iff)
  then have b: "first_some (brand_of_selector sp) brand_selectors = None"
    by (simp add: first_some_None_iff)
  have c: "first_some brand_of_row
             (select sp ''table.prodDetTable tr, div.product-facts-detail'') = None"
    using assms(3) by (simp add: first_some_None_iff)
  have d: "first_some (\<lambda>sel. first_some brand_of_spec (select sp sel)) spec_selectors = None"
    using assms(4) by (simp add: first_some_None_iff)
  have e: "brand_of_name product_name =
     (case py_split product_name of
        [] \<Rightarrow> []
      | w # ws \<Rightarrow>
          if is_upper (hd w) \<and> 2 < length w \<and> length w < 20
             \<and> w \<notin> set [''New'', ''The'', ''Premium'', ''Professional'', ''Original'',
                           ''Genuine'', ''Authentic'']
          then w else [])"
  proof (cases "product_name = []")
    case True
    then show ?thesis by (simp add: brand_of_name_def py_split_def)
  next
    case False
    with assms(5) show ?thesis
      by (auto simp: brand_of_name_def non_brand_words_def split: list.splits)
  qed
  from a b c d e show ?thesis by (simp add: extract_brand_def)
qed

theorem C8_brand_from_name_witness:
  "list_all (\<lambda>d. brand_of_ld d = None) (ld_json empty_page) \<and>
   list_all (\<lambda>sel. select empty_page sel = []) brand_selectors \<and>
   list_all (\<lambda>row. brand_of_row row = None)
     (select empty_page ''table.prodDetTable tr, div.product-facts-detail'') \<and>
   list_all (\<lambda>sel. list_all (\<lambda>e. brand_of_spec e = None) (select empty_page sel))
     spec_selectors \<and>
   ''Acme Heavy-Duty Widget'' \<noteq> ''Product name not found'' \<and>
   ''New Widget Pro'' \<noteq> ''Product name not found'' \<and>
   extract_brand empty_page ''Acme Heavy-Duty Widget'' = PStr ''Acme'' \<and>
   extract_brand empty_page ''New Widget Pro'' = PStr []"
proof -
  have h1: "list_all (\<lambda>d. brand_of_ld d = None) (ld_json empty_page)"
    by (simp add: empty_page_def)
  have h2: "list_all (\<lambda>sel. select empty_page sel = []) brand_selectors"
    by (simp add: empty_page_def list_all_iff)
  have h3: "list_all (\<lambda>row. brand_of_row row = None)
              (select empty_page ''table.prodDetTable tr, div.product-facts-detail'')"
    by (simp add: empty_page_def)
  have h4: "list_all (\<lambda>sel. list_all (\<lambda>e. brand_of_spec e = None) (select empty_page sel))
              spec_selectors"
    by (simp add: empty_page_def list_all_iff)
  have h5: "''Acme Heavy-Duty Widget'' \<noteq> ''Product name not found''" by simp
  have h6: "''New Widget Pro'' \<noteq> ''Product name not found''" by simp
  have e1: "(case py_split ''Acme Heavy-Duty Widget'' of
               [] \<Rightarrow> []
             | w # ws \<Rightarrow>
                 if is_upper (hd w) \<and> 2 < length w \<and> length w < 20
                    \<and> w \<notin> set [''New'', ''The'', ''Premium'', ''Professional'', ''Original'',
                                  ''Genuine'', ''Authentic'']
                 then w else []) = ''Acme''"
    by code_simp
  have e2: "(case py_split ''New Widget Pro'' of
               [] \<Rightarrow> []
             | w # ws \<Rightarrow>
                 if is_upper (hd w) \<and> 2 < length w \<and> length w < 20
                    \<and> w \<notin> set [''New'', ''The'', ''Premium'', ''Professional'', ''Original'',
                                  ''Genuine'', ''Authentic'']
                 then w else []) = []"
    by code_simp
  have r1: "extract_brand empty_page ''Acme Heavy-Duty Widget'' = PStr ''Acme''"
    using C8_brand_from_name [OF h1 h2 h3 h4 h5] unfolding e1 .
  have r2: "extract_brand empty_page ''New Widget Pro'' = PStr []"
    using C8_brand_from_name [OF h1 h2 h3 h4 h6] unfolding e2 .
  from h1 h2 h3 h4 h5 h6 r1 r2 show ?thesis by blast
qed

text \<open>
  C9. For a fixed outcome of the request (the body, the final URL and the page parsed from
  it, or the timeout) the result of \<open>scrape_product\<close> is the same whatever instance runs it,
  with whatever user agent and whatever product name left from an earlier scrape, and
  whatever delay was drawn: two runs on the same content return the same record, field by
  field, or raise for the same cause.
\<close>

theorem C9_deterministic:
  "fst (scrape_product urljoin self delay requested_url f)
     = fst (scrape_product urljoin self' delay' requested_url f)"
  using assemble_self [of urljoin self _ self']
  by (simp add: scrape_product_def split: fetch.splits)

text \<open>
  C10. The weight written back from the product name never changes the weight field.
  \<open>scrape_product\<close> stores the name in the instance before it calls \<open>extract_weight\<close>, so
  whenever \<open>extract_weight\<close> has returned the sentinel \<^verbatim>\<open>Weight not found\<close>, it has tried
  its seven name patterns on that name in vain (a match gives a text that starts with a
  number, never the sentinel), and the five patterns of lines 1199 to 1203 are among the
  seven: none of them matches. Hence lines 1197 to 1209 leave the weight as it is, and the
  weight of every assembled record is what \<open>extract_weight\<close> returned.
\<close>

theorem C10_backfill_changes_nothing:
  "(extract_weight (self\<lparr>last_product_name := Some name\<rparr>) sp = ''Weight not found''
      \<longrightarrow> weight_of_text backfill_patterns name = None) \<and>
   weight_backfill name (extract_weight (self\<lparr>last_product_name := Some name\<rparr>) sp)
     = extract_weight (self\<lparr>last_product_name := Some name\<rparr>) sp \<and>
   (\<not> blocked_check r
      \<and> fst (scrape_product urljoin self delay requested_url (Response r)) = Inr rec
      \<longrightarrow> map_of rec ''weight''
            = Some (PStr (extract_weight
                (self\<lparr>last_product_name := Some (extract_name (page r))\<rparr>) (page r))))"
proof (intro conjI impI)
  assume "extract_weight (self\<lparr>last_product_name := Some name\<rparr>) sp = ''Weight not found''"
  then show "weight_of_text backfill_patterns name = None" by (rule backfill_no_match)
next
  show "weight_backfill name (extract_weight (self\<lparr>last_product_name := Some name\<rparr>) sp)
          = extract_weight (self\<lparr>last_product_name := Some name\<rparr>) sp"
    by (rule backfill_identity)
next
  assume a: "\<not> blocked_check r
     \<and> fst (scrape_product urljoin self delay requested_url (Response r)) = Inr rec"
  then have "fst (assemble urljoin self r) = Inr rec"
    by (simp add: scrape_product_def split: if_splits)
  from assemble_weight [OF this] backfill_identity [of "extract_name (page r)" self "page r"]
  show "map_of rec ''weight''
          = Some (PStr (extract_weight
              (self\<lparr>last_product_name := Some (extract_name (page r))\<rparr>) (page r)))"
    by simp
qed

theorem C10_backfill_changes_nothing_witness:
  "extract_weight (fresh_scraper\<lparr>last_product_name := Some ''Garden Gnome''\<rparr>) gnome_page
     = ''Weight not found'' \<and>
   list_ex (\<lambda>unit. str_contains unit (py_lower ''Garden Gnome''))
     [''oz'', ''fl'', ''lb'', ''g'', ''kg'', ''ml''] \<and>
   weight_of_text backfill_patterns ''Garden Gnome'' = None \<and>
   \<not> blocked_check gnome_response \<and>
   fst (scrape_product urljoin_absolute fresh_scraper 2 ''https://shop.example/p/2''
          (Response gnome_response)) = Inr gnome_record \<and>
   map_of gnome_record ''weight''
     = Some (PStr (extract_weight
         (fresh_scraper\<lparr>last_product_name := Some (extract_name (page gnome_response))\<rparr>)
         (page gnome_response)))"
proof -
  have h1: "extract_weight (fresh_scraper\<lparr>last_product_name := Some ''Garden Gnome''\<rparr>)
              gnome_page = ''Weight not found''"
    by code_simp
  have g: "list_ex (\<lambda>unit. str_contains unit (py_lower ''Garden Gnome''))
             [''oz'', ''fl'', ''lb'', ''g'', ''kg'', ''ml'']"
    by code_simp
  have h2: "\<not> blocked_check gnome_response" by code_simp
  have h3: "fst (scrape_product urljoin_absolute fresh_scraper 2 ''https://shop.example/p/2''
                   (Response gnome_response)) = Inr gnome_record"
    by (rule gnome_response_record)
  note t = C10_backfill_changes_nothing [where self = fresh_scraper
      and name = "''Garden Gnome''" and sp = gnome_page and r = gnome_response
      and urljoin = urljoin_absolute and delay = 2
      and requested_url = "''https://shop.example/p/2''" and rec = gnome_record]
  from t h1 have r1: "weight_of_text backfill_patterns ''Garden Gnome'' = None" by blast
  from t h2 h3 have r2: "map_of gnome_record ''weight''
     = Some (PStr (extract_weight
         (fresh_scraper\<lparr>last_product_name := Some (extract_name (page gnome_response))\<rparr>)
         (page gnome_response)))" by blast
  from h1 g r1 h2 h3 r2 show ?thesis by blast
qed

end
